theory Spec2Isabelle
  imports Complex_Main
begin

section \<open>The JavaScript values the weather pipeline computes with\<close>

text \<open>
  The program is the route handler \<^verbatim>\<open>src/src/app/predict/page.tsx\<close> (TypeScript).
  Its values are modelled as follows.
  \<^item> A string is the list of its UTF-16 code units (\<open>jsstring\<close>); \<open>js ''abc''\<close> writes
    an ASCII literal, and a code unit above U+007F is written as its number
    (\<open>0xE9\<close> is e-acute, \<open>0xE0\<close> is a-grave).
  \<^item> A number is an exact real; a time value (milliseconds since the epoch) is an
    integer, and \<open>None\<close> stands for \<open>NaN\<close> (an invalid \<open>Date\<close>). Rounding errors of
    IEEE doubles, \<open>NaN\<close> and the infinities are outside the model.
  \<^item> \<open>null\<close> and \<open>undefined\<close> of an optional field are \<open>None\<close>.
  \<^item> A thrown exception is a value of type \<open>exn\<close>; a function that can throw returns
    \<open>exn + 'a\<close>, a settled promise is \<open>'a settled\<close>.
\<close>

type_synonym jsstring = "nat list"

definition js :: "string \<Rightarrow> jsstring" where
  "js s = map of_char s"

datatype exn = Error jsstring | TypeError jsstring | RangeError jsstring | SyntaxError jsstring
  | URIError jsstring

fun message :: "exn \<Rightarrow> jsstring" where
  "message (Error m) = m"
| "message (TypeError m) = m"
| "message (RangeError m) = m"
| "message (SyntaxError m) = m"
| "message (URIError m) = m"

datatype 'a settled = Fulfilled 'a | Rejected exn

text \<open>\<^verbatim>\<open>Math.round\<close>: the nearest integer, a tie going up.\<close>

definition Math_round :: "real \<Rightarrow> int" where
  "Math_round x = \<lfloor>x + 1 / 2\<rfloor>"

text \<open>\<^verbatim>\<open>a ?? b\<close> on an optional number.\<close>

fun nullish :: "'a option \<Rightarrow> 'a \<Rightarrow> 'a" where
  "nullish None d = d"
| "nullish (Some v) d = v"

subsection \<open>Strings\<close>

text \<open>The code units of \<^verbatim>\<open>WhiteSpace\<close> and \<^verbatim>\<open>LineTerminator\<close>: what \<^verbatim>\<open>trim\<close> strips
  and what \<^verbatim>\<open>\s\<close> matches.\<close>

definition is_space :: "nat \<Rightarrow> bool" where
  "is_space c \<longleftrightarrow> (9 \<le> c \<and> c \<le> 13) \<or> c = 32 \<or> c = 160 \<or> c = 5760
     \<or> (8192 \<le> c \<and> c \<le> 8202) \<or> c = 8232 \<or> c = 8233 \<or> c = 8239 \<or> c = 8287
     \<or> c = 12288 \<or> c = 65279"

definition trim :: "jsstring \<Rightarrow> jsstring" where
  "trim s = rev (dropWhile is_space (rev (dropWhile is_space s)))"

text \<open>\<^verbatim>\<open>toLowerCase\<close> on the code units up to U+00FF, where every string the program
  lower-cases lives (it lower-cases only what its own Latin-1 character classes matched);
  above U+00FF the model leaves a code unit as it is.\<close>

definition is_upper :: "nat \<Rightarrow> bool" where
  "is_upper c \<longleftrightarrow> (65 \<le> c \<and> c \<le> 90) \<or> (192 \<le> c \<and> c \<le> 222 \<and> c \<noteq> 215)"

definition is_lower :: "nat \<Rightarrow> bool" where
  "is_lower c \<longleftrightarrow> (97 \<le> c \<and> c \<le> 122) \<or> (224 \<le> c \<and> c \<le> 254 \<and> c \<noteq> 247)"

definition toLowerCase :: "jsstring \<Rightarrow> jsstring" where
  "toLowerCase s = map (\<lambda>c. if is_upper c then c + 32 else c) s"

text \<open>Decimal digits of a natural number, \<^verbatim>\<open>padStart\<close>, and \<^verbatim>\<open>String(n)\<close> of an integer.\<close>

fun digits :: "nat \<Rightarrow> jsstring" where
  "digits n = (if n < 10 then [48 + n] else digits (n div 10) @ [48 + n mod 10])"

declare digits.simps [simp del]

definition padStart :: "nat \<Rightarrow> nat \<Rightarrow> jsstring \<Rightarrow> jsstring" where
  "padStart n c s = replicate (n - length s) c @ s"

definition String_int :: "int \<Rightarrow> jsstring" where
  "String_int i = (if i < 0 then 45 # digits (nat (- i)) else digits (nat i))"

text \<open>\<^verbatim>\<open>String(x)\<close> of a number that may be \<open>NaN\<close>.\<close>

definition String_num :: "int option \<Rightarrow> jsstring" where
  "String_num x = (case x of None \<Rightarrow> js ''NaN'' | Some i \<Rightarrow> String_int i)"

subsection \<open>Dates\<close>

text \<open>The time-value arithmetic of ECMAScript (section "Time Values and Time Range"),
  on integers. \<open>YearFromTime\<close> is specified as the largest year starting at or before
  the time; it is computed here from the mean length of a year and adjusted by one.\<close>

definition msPerDay :: int where
  "msPerDay = 86400000"

definition Day :: "int \<Rightarrow> int" where
  "Day t = t div msPerDay"

definition TimeWithinDay :: "int \<Rightarrow> int" where
  "TimeWithinDay t = t mod msPerDay"

definition DaysInYear :: "int \<Rightarrow> int" where
  "DaysInYear y = (if y mod 4 \<noteq> 0 then 365 else if y mod 100 \<noteq> 0 then 366
                   else if y mod 400 \<noteq> 0 then 365 else 366)"

definition DayFromYear :: "int \<Rightarrow> int" where
  "DayFromYear y = 365 * (y - 1970) + (y - 1969) div 4 - (y - 1901) div 100 + (y - 1601) div 400"

definition YearFromDay :: "int \<Rightarrow> int" where
  "YearFromDay d = (let y = 1970 + (400 * d) div 146097 in
     if DayFromYear (y + 1) \<le> d then y + 1 else if d < DayFromYear y then y - 1 else y)"

definition YearFromTime :: "int \<Rightarrow> int" where
  "YearFromTime t = YearFromDay (Day t)"

definition leap :: "int \<Rightarrow> int" where
  "leap y = (if DaysInYear y = 366 then 1 else 0)"

definition DayWithinYear :: "int \<Rightarrow> int" where
  "DayWithinYear t = Day t - DayFromYear (YearFromTime t)"

text \<open>The day of the year on which month \<open>m\<close> (0 to 11) starts.\<close>

definition monthStart :: "int \<Rightarrow> int \<Rightarrow> int" where
  "monthStart l m = (if m = 0 then 0 else if m = 1 then 31 else if m = 2 then 59 + l
     else if m = 3 then 90 + l else if m = 4 then 120 + l else if m = 5 then 151 + l
     else if m = 6 then 181 + l else if m = 7 then 212 + l else if m = 8 then 243 + l
     else if m = 9 then 273 + l else if m = 10 then 304 + l else 334 + l)"

definition MonthFromTime :: "int \<Rightarrow> int" where
  "MonthFromTime t = (let l = leap (YearFromTime t); d = DayWithinYear t in
     if d < 31 then 0 else if d < 59 + l then 1 else if d < 90 + l then 2
     else if d < 120 + l then 3 else if d < 151 + l then 4 else if d < 181 + l then 5
     else if d < 212 + l then 6 else if d < 243 + l then 7 else if d < 273 + l then 8
     else if d < 304 + l then 9 else if d < 334 + l then 10 else 11)"

definition DateFromTime :: "int \<Rightarrow> int" where
  "DateFromTime t = DayWithinYear t + 1 - monthStart (leap (YearFromTime t)) (MonthFromTime t)"

definition HourFromTime :: "int \<Rightarrow> int" where
  "HourFromTime t = (t div 3600000) mod 24"

definition MinFromTime :: "int \<Rightarrow> int" where
  "MinFromTime t = (t div 60000) mod 60"

definition SecFromTime :: "int \<Rightarrow> int" where
  "SecFromTime t = (t div 1000) mod 60"

definition msFromTime :: "int \<Rightarrow> int" where
  "msFromTime t = t mod 1000"

definition MakeDay :: "int \<Rightarrow> int \<Rightarrow> int \<Rightarrow> int" where
  "MakeDay year month date = (let ym = year + month div 12; mn = month mod 12 in
     DayFromYear ym + monthStart (leap ym) mn + date - 1)"

definition MakeDate :: "int \<Rightarrow> int \<Rightarrow> int" where
  "MakeDate day time = day * msPerDay + time"

definition TimeClip :: "int \<Rightarrow> int option" where
  "TimeClip t = (if \<bar>t\<bar> > 8640000000000000 then None else Some t)"

text \<open>\<^verbatim>\<open>Date.UTC(year, month, date)\<close>; the month may be \<open>NaN\<close>.\<close>

definition Date_UTC :: "int \<Rightarrow> int option \<Rightarrow> int \<Rightarrow> int option" where
  "Date_UTC year month date = (case month of None \<Rightarrow> None | Some m \<Rightarrow>
     (let yr = (if 0 \<le> year \<and> year \<le> 99 then 1900 + year else year) in
      TimeClip (MakeDate (MakeDay yr m date) 0)))"

text \<open>\<^verbatim>\<open>d.setUTCFullYear(y)\<close>: the new time value of \<open>d\<close>.\<close>

definition setUTCFullYear :: "int option \<Rightarrow> int \<Rightarrow> int option" where
  "setUTCFullYear tv y = (let t = (case tv of None \<Rightarrow> 0 | Some t \<Rightarrow> t) in
     TimeClip (MakeDate (MakeDay y (MonthFromTime t) (DateFromTime t)) (TimeWithinDay t)))"

definition pad_int :: "nat \<Rightarrow> int \<Rightarrow> jsstring" where
  "pad_int n i = padStart n 48 (digits (nat i))"

text \<open>\<^verbatim>\<open>d.toISOString()\<close> throws a \<^verbatim>\<open>RangeError\<close> on an invalid date; a year outside
  0 to 9999 is written with a sign and six digits.\<close>

definition ISOString :: "int \<Rightarrow> jsstring" where
  "ISOString t = (let y = YearFromTime t in
     (if 0 \<le> y \<and> y \<le> 9999 then pad_int 4 y
      else (if y < 0 then 45 else 43) # pad_int 6 \<bar>y\<bar>)
     @ js ''-'' @ pad_int 2 (MonthFromTime t + 1) @ js ''-'' @ pad_int 2 (DateFromTime t)
     @ js ''T'' @ pad_int 2 (HourFromTime t) @ js '':'' @ pad_int 2 (MinFromTime t)
     @ js '':'' @ pad_int 2 (SecFromTime t) @ js ''.'' @ pad_int 3 (msFromTime t)
     @ js ''Z'')"

definition toISOString :: "int option \<Rightarrow> exn + jsstring" where
  "toISOString tv = (case tv of
       None \<Rightarrow> Inl (RangeError (js ''Invalid time value''))
     | Some t \<Rightarrow> Inr (ISOString t))"

text \<open>\<^verbatim>\<open>function toISODate(d) { return d.toISOString().slice(0, 10); }\<close>\<close>

definition toISODate :: "int option \<Rightarrow> exn + jsstring" where
  "toISODate d = (case toISOString d of Inl e \<Rightarrow> Inl e | Inr s \<Rightarrow> Inr (take 10 s))"

subsection \<open>Regular expressions\<close>

text \<open>
  The regular expressions of the program, as syntax trees, and a backtracking matcher in
  the continuation style of the ECMAScript specification: \<open>rmatch ic r k s\<close> matches \<open>r\<close>
  at state \<open>s\<close> and hands every end state, in the order of priority, to the continuation
  \<open>k\<close>, until \<open>k\<close> accepts one. A state is the index, the code unit before it, the rest
  of the input and the captures. \<open>ic\<close> is the flag \<^verbatim>\<open>i\<close>.

  The program quantifies single characters and classes only (\<open>Rep min max greedy class\<close>),
  apart from optional groups (\<open>Opt\<close>).

  \<open>canon\<close> is \<^verbatim>\<open>Canonicalize\<close> without the flag \<^verbatim>\<open>u\<close> (the upper-case mapping) on the
  code units up to U+00FF, and the identity above. Every pattern character of the program
  is at most U+00FF and none is U+00B5, and for such patterns this agrees with ECMAScript
  on every input: apart from U+0178 (the upper case of U+00FF) no code unit above U+00FF
  is canonicalized to the canonical form of such a pattern character.
\<close>

datatype citem = Ch nat | Rng nat nat | Digit | Space

datatype regex = Eps | Atom "citem list" | WordB | Bol | Eol
  | Seq regex regex | Alt regex regex | Grp nat regex | Opt regex
  | Rep nat "nat option" bool "citem list"

datatype mstate =
  MState (m_pos: nat) (m_prev: "nat option") (m_rest: jsstring) (m_caps: "(nat \<times> jsstring) list")

definition canon :: "nat \<Rightarrow> nat" where
  "canon c = (if is_lower c then c - 32 else if c = 255 then 376 else if c = 181 then 924 else c)"

text \<open>The code units with the same canonical form as \<open>c\<close>.\<close>

definition variants :: "nat \<Rightarrow> nat list" where
  "variants c = c # (if is_lower c then [c - 32] else []) @ (if is_upper c then [c + 32] else [])
     @ (if c = 255 then [376] else []) @ (if c = 376 then [255] else [])
     @ (if c = 181 then [924] else []) @ (if c = 924 then [181] else [])"

definition is_word :: "nat option \<Rightarrow> bool" where
  "is_word x = (case x of None \<Rightarrow> False
     | Some c \<Rightarrow> (97 \<le> c \<and> c \<le> 122) \<or> (65 \<le> c \<and> c \<le> 90) \<or> (48 \<le> c \<and> c \<le> 57) \<or> c = 95)"

fun imatch :: "bool \<Rightarrow> nat \<Rightarrow> citem \<Rightarrow> bool" where
  "imatch ic c (Ch x) = (if ic then canon c = canon x else c = x)"
| "imatch ic c (Rng lo hi) =
     (if ic then list_ex (\<lambda>a. lo \<le> a \<and> a \<le> hi) (variants c) else lo \<le> c \<and> c \<le> hi)"
| "imatch ic c Digit = (48 \<le> c \<and> c \<le> 57)"
| "imatch ic c Space = is_space c"

definition cmatch :: "bool \<Rightarrow> citem list \<Rightarrow> nat \<Rightarrow> bool" where
  "cmatch ic cs c = list_ex (imatch ic c) cs"

fun next_unit :: "jsstring \<Rightarrow> nat option" where
  "next_unit [] = None"
| "next_unit (c # cs) = Some c"

text \<open>A quantified class: \<open>mn\<close> more units are required, at most \<open>mx\<close> more are allowed.
  Greedy takes one more unit first and falls back to stopping; lazy stops first.\<close>

fun rep :: "bool \<Rightarrow> citem list \<Rightarrow> bool \<Rightarrow> (mstate \<Rightarrow> mstate option) \<Rightarrow> (nat \<times> jsstring) list
    \<Rightarrow> nat \<Rightarrow> nat option \<Rightarrow> nat \<Rightarrow> nat option \<Rightarrow> jsstring \<Rightarrow> mstate option" where
  "rep ic cs g k caps mn mx p pv [] = (if mn = 0 then k (MState p pv [] caps) else None)"
| "rep ic cs g k caps mn mx p pv (c # r) =
     (if mx = Some 0 then k (MState p pv (c # r) caps)
      else if \<not> cmatch ic cs c then (if mn = 0 then k (MState p pv (c # r) caps) else None)
      else if mn > 0 then rep ic cs g k caps (mn - 1) (map_option (\<lambda>n. n - 1) mx) (Suc p) (Some c) r
      else if g then
        (case rep ic cs g k caps 0 (map_option (\<lambda>n. n - 1) mx) (Suc p) (Some c) r of
           Some e \<Rightarrow> Some e
         | None \<Rightarrow> k (MState p pv (c # r) caps))
      else
        (case k (MState p pv (c # r) caps) of
           Some e \<Rightarrow> Some e
         | None \<Rightarrow> rep ic cs g k caps 0 (map_option (\<lambda>n. n - 1) mx) (Suc p) (Some c) r))"

fun rmatch :: "bool \<Rightarrow> regex \<Rightarrow> (mstate \<Rightarrow> mstate option) \<Rightarrow> mstate \<Rightarrow> mstate option" where
  "rmatch ic Eps k s = k s"
| "rmatch ic (Atom cs) k s = (case m_rest s of [] \<Rightarrow> None
     | c # r \<Rightarrow> if cmatch ic cs c then k (MState (Suc (m_pos s)) (Some c) r (m_caps s)) else None)"
| "rmatch ic WordB k s =
     (if is_word (m_prev s) \<noteq> is_word (next_unit (m_rest s)) then k s else None)"
| "rmatch ic Bol k s = (if m_prev s = None then k s else None)"
| "rmatch ic Eol k s = (if m_rest s = [] then k s else None)"
| "rmatch ic (Seq a b) k s = rmatch ic a (rmatch ic b k) s"
| "rmatch ic (Alt a b) k s =
     (case rmatch ic a k s of Some e \<Rightarrow> Some e | None \<Rightarrow> rmatch ic b k s)"
| "rmatch ic (Grp n r) k s =
     rmatch ic r (\<lambda>e. k (MState (m_pos e) (m_prev e) (m_rest e)
                         ((n, take (m_pos e - m_pos s) (m_rest s)) # m_caps e))) s"
| "rmatch ic (Opt r) k s =
     (case rmatch ic r (\<lambda>e. if m_pos e = m_pos s then None else k e) s of
        Some e \<Rightarrow> Some e
      | None \<Rightarrow> k s)"
| "rmatch ic (Rep mn mx g cs) k s = rep ic cs g k (m_caps s) mn mx (m_pos s) (m_prev s) (m_rest s)"

definition seqs :: "regex list \<Rightarrow> regex" where
  "seqs rs = foldr Seq rs Eps"

definition alts :: "regex \<Rightarrow> regex list \<Rightarrow> regex" where
  "alts r rs = foldr (\<lambda>a b. Alt a b) (butlast (r # rs)) (last (r # rs))"

definition lit :: "jsstring \<Rightarrow> regex" where
  "lit s = seqs (map (\<lambda>c. Atom [Ch c]) s)"

text \<open>\<^verbatim>\<open>re.exec(s)\<close> without the flags \<^verbatim>\<open>g\<close> and \<^verbatim>\<open>y\<close>: the leftmost start index at which
  the pattern matches, with the end state. \<open>search\<close> is at index \<open>p\<close>, after the unit
  \<open>pv\<close>.\<close>

fun search :: "bool \<Rightarrow> regex \<Rightarrow> nat \<Rightarrow> nat option \<Rightarrow> jsstring \<Rightarrow> (nat \<times> mstate) option" where
  "search ic r p pv [] = map_option (Pair p) (rmatch ic r Some (MState p pv [] []))"
| "search ic r p pv (c # cs) =
     (case rmatch ic r Some (MState p pv (c # cs) []) of
        Some e \<Rightarrow> Some (p, e)
      | None \<Rightarrow> search ic r (Suc p) (Some c) cs)"

definition regex_exec :: "bool \<Rightarrow> regex \<Rightarrow> jsstring \<Rightarrow> (nat \<times> mstate) option" where
  "regex_exec ic r s = search ic r 0 None s"

definition regex_test :: "bool \<Rightarrow> regex \<Rightarrow> jsstring \<Rightarrow> bool" where
  "regex_test ic r s = (regex_exec ic r s \<noteq> None)"

text \<open>\<^verbatim>\<open>m[n]\<close> of a match: \<open>None\<close> is \<^verbatim>\<open>undefined\<close> (the group took no part).\<close>

definition capture :: "mstate \<Rightarrow> nat \<Rightarrow> jsstring option" where
  "capture e n = map_of (m_caps e) n"

text \<open>\<^verbatim>\<open>s.replace(re, repl)\<close> with the flag \<^verbatim>\<open>g\<close> and a replacement without \<^verbatim>\<open>$\<close>: every
  match, left to right, the search resuming where the match ended (one unit further after
  an empty match). \<open>skip\<close> counts the units of the last match still to be dropped.\<close>

fun replace_go :: "bool \<Rightarrow> regex \<Rightarrow> jsstring \<Rightarrow> nat \<Rightarrow> nat \<Rightarrow> nat option \<Rightarrow> jsstring \<Rightarrow> jsstring" where
  "replace_go ic r repl skip p pv [] =
     (if skip = 0 then (case rmatch ic r Some (MState p pv [] []) of Some e \<Rightarrow> repl | None \<Rightarrow> [])
      else [])"
| "replace_go ic r repl skip p pv (c # cs) =
     (if skip > 0 then replace_go ic r repl (skip - 1) (Suc p) (Some c) cs
      else case rmatch ic r Some (MState p pv (c # cs) []) of
          None \<Rightarrow> c # replace_go ic r repl 0 (Suc p) (Some c) cs
        | Some e \<Rightarrow>
            if m_pos e = p then repl @ c # replace_go ic r repl 0 (Suc p) (Some c) cs
            else repl @ replace_go ic r repl (m_pos e - p - 1) (Suc p) (Some c) cs)"

definition replace_all :: "bool \<Rightarrow> regex \<Rightarrow> jsstring \<Rightarrow> jsstring \<Rightarrow> jsstring" where
  "replace_all ic r repl s = replace_go ic r repl 0 0 None s"

text \<open>\<^verbatim>\<open>s.replace(re, repl)\<close> without the flag \<^verbatim>\<open>g\<close>: the first match only.\<close>

definition replace_first :: "bool \<Rightarrow> regex \<Rightarrow> jsstring \<Rightarrow> jsstring \<Rightarrow> jsstring" where
  "replace_first ic r repl s = (case regex_exec ic r s of
       None \<Rightarrow> s
     | Some (p, e) \<Rightarrow> take p s @ repl @ drop (m_pos e) s)"

text \<open>\<^verbatim>\<open>s.match(re) || []\<close> with the flag \<^verbatim>\<open>g\<close>: the matched substrings, left to right.\<close>

fun match_go :: "bool \<Rightarrow> regex \<Rightarrow> nat \<Rightarrow> nat \<Rightarrow> nat option \<Rightarrow> jsstring \<Rightarrow> jsstring list" where
  "match_go ic r skip p pv [] =
     (if skip = 0 then (case rmatch ic r Some (MState p pv [] []) of Some e \<Rightarrow> [[]] | None \<Rightarrow> [])
      else [])"
| "match_go ic r skip p pv (c # cs) =
     (if skip > 0 then match_go ic r (skip - 1) (Suc p) (Some c) cs
      else case rmatch ic r Some (MState p pv (c # cs) []) of
          None \<Rightarrow> match_go ic r 0 (Suc p) (Some c) cs
        | Some e \<Rightarrow>
            take (m_pos e - p) (c # cs) # match_go ic r (m_pos e - p - 1) (Suc p) (Some c) cs)"

definition match_all :: "bool \<Rightarrow> regex \<Rightarrow> jsstring \<Rightarrow> jsstring list" where
  "match_all ic r s = match_go ic r 0 0 None s"

section \<open>Text normalizer\<close>

text \<open>The character classes and the vocabulary of the patterns.
  \<open>fr_letters\<close> is \<^verbatim>\<open>[a-zA-Z\<close> followed by the twelve accented letters
  e-acute, e-grave, e-circumflex, e-diaeresis, a-grave, a-circumflex, o-circumflex,
  u-circumflex, u-grave, i-circumflex, i-diaeresis, c-cedilla \<^verbatim>\<open>]\<close>;
  \<open>name_chars\<close> is \<^verbatim>\<open>[A-Za-z\<close>U+00C0\<^verbatim>\<open>-\<close>U+00D6 U+00D8\<^verbatim>\<open>-\<close>U+00F6 U+00F8\<^verbatim>\<open>-\<close>U+00FF\<^verbatim>\<open>' -]\<close>.\<close>

definition fr_letters :: "citem list" where
  "fr_letters = [Rng 97 122, Rng 65 90, Ch 0xE9, Ch 0xE8, Ch 0xEA, Ch 0xEB, Ch 0xE0, Ch 0xE2,
     Ch 0xF4, Ch 0xFB, Ch 0xF9, Ch 0xEE, Ch 0xEF, Ch 0xE7]"

definition name_chars :: "citem list" where
  "name_chars = [Rng 65 90, Rng 97 122, Rng 0xC0 0xD6, Rng 0xD8 0xF6, Rng 0xF8 0xFF,
     Ch 39, Ch 32, Ch 45]"

definition rstar :: "citem list \<Rightarrow> regex" where
  "rstar cs = Rep 0 None True cs"

definition rplus :: "citem list \<Rightarrow> regex" where
  "rplus cs = Rep 1 None True cs"

definition exterieur_accent :: jsstring where
  "exterieur_accent = js ''ext'' @ [0xE9] @ js ''rieur''"

text \<open>\<^verbatim>\<open>/^\d{4}-\d{2}-\d{2}$/\<close>\<close>

definition re_iso_date :: regex where
  "re_iso_date = seqs [Bol, Rep 4 (Some 4) True [Digit], Atom [Ch 45],
     Rep 2 (Some 2) True [Digit], Atom [Ch 45], Rep 2 (Some 2) True [Digit], Eol]"

text \<open>The generic date parsing of \<^verbatim>\<open>new Date(string)\<close> is implementation-defined for
  most strings; it is a parameter \<open>Date_parse\<close> of the model (\<open>None\<close> is an invalid date).

  \<^verbatim>\<open>function normalizeDateISO(maybe) {
    if (!maybe) return undefined;
    if (/^\d{4}-\d{2}-\d{2}$/.test(maybe)) return maybe;
    const date = new Date(maybe);
    if (!isNaN(date.getTime())) return toISODate(date);
    return undefined; }\<close>\<close>

definition normalizeDateISO :: "(jsstring \<Rightarrow> int option) \<Rightarrow> jsstring option \<Rightarrow> jsstring option" where
  "normalizeDateISO Date_parse maybe = (case maybe of
       None \<Rightarrow> None
     | Some s \<Rightarrow>
         if s = [] then None
         else if regex_test False re_iso_date s then Some s
         else (case Date_parse s of Some t \<Rightarrow> Some (take 10 (ISOString t)) | None \<Rightarrow> None))"

text \<open>\<^verbatim>\<open>/\ble\s*\d{1,2}\s*[a-zA-Z...]+(?:\s*\d{4})?/gi\<close>\<close>

definition re_date_fragment :: regex where
  "re_date_fragment = seqs [WordB, lit (js ''le''), rstar [Space], Rep 1 (Some 2) True [Digit],
     rstar [Space], rplus fr_letters, Opt (seqs [rstar [Space], Rep 4 (Some 4) True [Digit]])]"

text \<open>\<^verbatim>\<open>/(?:\b\<close>a-grave\<^verbatim>\<open>|\ba)\s+([A-Za-z...' -]+)/i\<close>\<close>

definition re_after_a :: regex where
  "re_after_a = seqs [Alt (Seq WordB (Atom [Ch 0xE0])) (Seq WordB (Atom [Ch 97])),
     rplus [Space], Grp 1 (rplus name_chars)]"

text \<open>\<^verbatim>\<open>/^\s*(vacances|rando|plage|mariage|sport)\s+/i\<close>\<close>

definition re_leading_activity :: regex where
  "re_leading_activity = seqs [Bol, rstar [Space],
     Grp 1 (alts (lit (js ''vacances'')) [lit (js ''rando''), lit (js ''plage''),
       lit (js ''mariage''), lit (js ''sport'')]),
     rplus [Space]]"

text \<open>\<^verbatim>\<open>/\s{2,}/g\<close> and \<^verbatim>\<open>/[,.]$/g\<close>\<close>

definition re_spaces :: regex where
  "re_spaces = Rep 2 None True [Space]"

definition re_trailing_punct :: regex where
  "re_trailing_punct = Seq (Atom [Ch 44, Ch 46]) Eol"

text \<open>\<^verbatim>\<open>function sanitizeLocationString(input) {
    if (!input) return undefined;
    let s = String(input).trim();
    s = s.replace(/\ble\s*\d{1,2}\s*[a-zA-Z...]+(?:\s*\d{4})?/gi, '').trim();
    const m = s.match(/(?:\b\<close>a-grave\<^verbatim>\<open>|\ba)\s+([A-Za-z...' -]+)/i);
    if (m) s = m[1].trim();
    s = s.replace(/^\s*(vacances|rando|plage|mariage|sport)\s+/i, '').trim();
    s = s.replace(/\s{2,}/g, ' ').replace(/[,.]$/g, '').trim();
    return s || undefined; }\<close>\<close>

definition sanitizeLocationString :: "jsstring option \<Rightarrow> jsstring option" where
  "sanitizeLocationString input = (case input of
       None \<Rightarrow> None
     | Some i \<Rightarrow>
         if i = [] then None
         else
           (let s1 = trim i;
                s2 = trim (replace_all True re_date_fragment [] s1);
                s3 = (case regex_exec True re_after_a s2 of
                        None \<Rightarrow> s2
                      | Some (p, e) \<Rightarrow> trim (nullish (capture e 1) []));
                s4 = trim (replace_first True re_leading_activity [] s3);
                s5 = trim (replace_all False re_trailing_punct []
                             (replace_all False re_spaces (js '' '') s4))
            in if s5 = [] then None else Some s5))"

text \<open>The month names and stop words of \<^verbatim>\<open>extractCandidateLocation\<close>.\<close>

definition candidate_months :: "jsstring list" where
  "candidate_months = [js ''janvier'', js ''f'' @ [0xE9] @ js ''vrier'', js ''fevrier'', js ''mars'',
     js ''avril'', js ''mai'', js ''juin'', js ''juillet'', js ''ao'' @ [0xFB] @ js ''t'', js ''aout'',
     js ''septembre'', js ''octobre'', js ''novembre'', js ''d'' @ [0xE9] @ js ''cembre'',
     js ''decembre'']"

definition candidate_stops :: "jsstring list" where
  "candidate_stops = [js ''vacances'', js ''le'', js ''la'', js ''les'', [0xE0], js ''a'', js ''en'',
     js ''au'', js ''aux'', js ''de'', js ''du'', js ''des'']"

text \<open>\<^verbatim>\<open>/[A-Z\<close>U+00C0\<^verbatim>\<open>-\<close>U+00D6\<^verbatim>\<open>][A-Za-z...' -]+/g\<close> and \<^verbatim>\<open>/^20\d{2}$/\<close>\<close>

definition re_capitalized :: regex where
  "re_capitalized = Seq (Atom [Rng 65 90, Rng 0xC0 0xD6]) (rplus name_chars)"

definition re_year20 :: regex where
  "re_year20 = seqs [Bol, lit (js ''20''), Rep 2 (Some 2) True [Digit], Eol]"

text \<open>The loop \<^verbatim>\<open>for (const t of tokens) { ... }\<close> of \<^verbatim>\<open>extractCandidateLocation\<close>.\<close>

fun first_candidate :: "jsstring list \<Rightarrow> jsstring option" where
  "first_candidate [] = None"
| "first_candidate (t # ts) =
     (let norm = toLowerCase (trim t) in
      if norm \<in> set candidate_months \<or> norm \<in> set candidate_stops then first_candidate ts
      else if regex_test False re_year20 norm then first_candidate ts
      else Some (trim t))"

definition extractCandidateLocation :: "jsstring \<Rightarrow> jsstring option" where
  "extractCandidateLocation query = (let q = trim query in
     if q = [] then None else first_candidate (match_all False re_capitalized q))"

section \<open>Heuristic parser\<close>

record intent =
  location :: "jsstring option"
  dateISO :: "jsstring option"
  activity :: "jsstring option"

text \<open>\<^verbatim>\<open>/(vacances|rando|plage|mariage|sport|ext\<close>e-acute\<^verbatim>\<open>rieur|exterieur)/i\<close>\<close>

definition re_activity :: regex where
  "re_activity = Grp 1 (alts (lit (js ''vacances'')) [lit (js ''rando''), lit (js ''plage''),
     lit (js ''mariage''), lit (js ''sport''), lit exterieur_accent, lit (js ''exterieur'')])"

text \<open>\<^verbatim>\<open>/(?:\b\<close>a-grave\<^verbatim>\<open>|\ba)\s+([A-Za-z...' -]+?)(?:\s+le\b|$)/i\<close>\<close>

definition re_location :: regex where
  "re_location = seqs [Alt (Seq WordB (Atom [Ch 0xE0])) (Seq WordB (Atom [Ch 97])),
     rplus [Space], Grp 1 (Rep 1 None False name_chars),
     Alt (seqs [rplus [Space], lit (js ''le''), WordB]) Eol]"

text \<open>\<^verbatim>\<open>/\ble\s*(\d{1,2})\s*([a-zA-Z...]+)\s*(\d{4})?/i\<close>\<close>

definition re_date :: regex where
  "re_date = seqs [WordB, lit (js ''le''), rstar [Space], Grp 1 (Rep 1 (Some 2) True [Digit]),
     rstar [Space], Grp 2 (rplus fr_letters), rstar [Space],
     Opt (Grp 3 (Rep 4 (Some 4) True [Digit]))]"

text \<open>The table \<^verbatim>\<open>months\<close> is an object literal, so a lookup also finds what it inherits
  from \<^verbatim>\<open>Object.prototype\<close>. Of the inherited names only \<^verbatim>\<open>constructor\<close> is a lower-case
  word; its value is a function, which is truthy and gives \<open>NaN\<close> in \<^verbatim>\<open>month - 1\<close>.\<close>

datatype month_entry = NoMonth | MonthNumber int | Inherited

definition month_table :: "(jsstring \<times> int) list" where
  "month_table = [(js ''janvier'', 1), (js ''fevrier'', 2), (js ''f'' @ [0xE9] @ js ''vrier'', 2),
     (js ''mars'', 3), (js ''avril'', 4), (js ''mai'', 5), (js ''juin'', 6), (js ''juillet'', 7),
     (js ''aout'', 8), (js ''ao'' @ [0xFB] @ js ''t'', 8), (js ''septembre'', 9), (js ''octobre'', 10),
     (js ''novembre'', 11), (js ''decembre'', 12), (js ''d'' @ [0xE9] @ js ''cembre'', 12)]"

definition months :: "jsstring \<Rightarrow> month_entry" where
  "months name = (case map_of month_table name of
       Some n \<Rightarrow> MonthNumber n
     | None \<Rightarrow> if name = js ''constructor'' then Inherited else NoMonth)"

text \<open>\<^verbatim>\<open>parseInt(s, 10)\<close> on a string of decimal digits.\<close>

definition parseInt :: "jsstring \<Rightarrow> int" where
  "parseInt s = foldl (\<lambda>a c. 10 * a + (int c - 48)) 0 s"

text \<open>\<^verbatim>\<open>a < b\<close> on two dates: false when either is invalid.\<close>

fun date_less :: "int option \<Rightarrow> int option \<Rightarrow> bool" where
  "date_less (Some a) (Some b) = (a < b)"
| "date_less _ _ = False"

text \<open>The date of \<^verbatim>\<open>parseFrenchFallback\<close>, from the three groups of the date pattern and
  the current time \<open>now\<close>:
  \<^verbatim>\<open>const day = parseInt(dateMatch[1], 10);
  const monthName = dateMatch[2].toLowerCase();
  const month = months[monthName];
  const yearGiven = dateMatch[3] ? parseInt(dateMatch[3], 10) : undefined;
  if (month && !isNaN(day)) {
    const baseYear = yearGiven && yearGiven > 1900 ? yearGiven : today.getUTCFullYear();
    const target = new Date(Date.UTC(baseYear, month - 1, day));
    const todayStart = new Date(Date.UTC(today.getUTCFullYear(), today.getUTCMonth(), today.getUTCDate()));
    // N'incremente l'annee que si aucune annee explicite n'a ete fournie
    if (!yearGiven && target < todayStart) target.setUTCFullYear(target.getUTCFullYear() + 1);
    dateISO = toISODate(target); }\<close>
  A number is falsy when it is 0.\<close>

definition fallback_date :: "int \<Rightarrow> jsstring \<Rightarrow> jsstring \<Rightarrow> jsstring option \<Rightarrow> exn + jsstring option" where
  "fallback_date now g1 g2 g3 =
     (let day = parseInt g1;
          monthName = toLowerCase g2;
          month = months monthName;
          yearGiven = (case g3 of None \<Rightarrow> None | Some y \<Rightarrow> if y = [] then None else Some (parseInt y))
      in if month = NoMonth then Inr None
         else
           (let truthy_year = (case yearGiven of None \<Rightarrow> False | Some y \<Rightarrow> y \<noteq> 0);
                baseYear = (case yearGiven of
                              None \<Rightarrow> YearFromTime now
                            | Some y \<Rightarrow> if y \<noteq> 0 \<and> y > 1900 then y else YearFromTime now);
                target = Date_UTC baseYear
                           (case month of MonthNumber m \<Rightarrow> Some (m - 1) | _ \<Rightarrow> None) day;
                todayStart = Date_UTC (YearFromTime now) (Some (MonthFromTime now)) (DateFromTime now);
                target' = (case target of
                             None \<Rightarrow> None
                           | Some t \<Rightarrow>
                               if \<not> truthy_year \<and> date_less (Some t) todayStart
                               then setUTCFullYear (Some t) (YearFromTime t + 1)
                               else Some t)
            in (case toISODate target' of Inl e \<Rightarrow> Inl e | Inr d \<Rightarrow> Inr (Some d))))"

text \<open>\<^verbatim>\<open>function parseFrenchFallback(query) {
    const q = query || '';
    const activityMatch = q.match(/(vacances|...|exterieur)/i);
    const locationMatch = q.match(/(?:\b\<close>a-grave\<^verbatim>\<open>|\ba)\s+(...+?)(?:\s+le\b|$)/i);
    const dateMatch = q.match(/\ble\s*(\d{1,2})\s*([a-zA-Z...]+)\s*(\d{4})?/i);
    let dateISO;
    if (dateMatch) { const today = new Date(); ... }
    return { location: locationMatch?.[1]?.trim(), dateISO,
             activity: activityMatch?.[1]?.toLowerCase() }; }\<close>
  The exception of \<^verbatim>\<open>toISODate\<close> is not caught in the function.\<close>

definition parseFrenchFallback :: "int \<Rightarrow> jsstring \<Rightarrow> exn + intent" where
  "parseFrenchFallback now q =
     (let activityMatch = regex_exec True re_activity q;
          locationMatch = regex_exec True re_location q;
          dateMatch = regex_exec True re_date q;
          d = (case dateMatch of
                 None \<Rightarrow> Inr None
               | Some (p, e) \<Rightarrow>
                   fallback_date now (nullish (capture e 1) []) (nullish (capture e 2) []) (capture e 3))
      in case d of
           Inl x \<Rightarrow> Inl x
         | Inr dt \<Rightarrow> Inr \<lparr> location = (case locationMatch of None \<Rightarrow> None
                                        | Some (p, e) \<Rightarrow> map_option trim (capture e 1)),
                          dateISO = dt,
                          activity = (case activityMatch of None \<Rightarrow> None
                                        | Some (p, e) \<Rightarrow> map_option toLowerCase (capture e 1)) \<rparr>)"

section \<open>The world outside the handler\<close>

text \<open>
  What the handler reads from outside is a parameter of the model, the record \<open>world\<close>:
  the clock, the two environment variables it branches on, the two library functions the
  model does not spell out (\<^verbatim>\<open>Date.parse\<close> and \<^verbatim>\<open>JSON.parse\<close>), and the answer of each
  upstream service to each request. One clock value stands for every \<^verbatim>\<open>new Date()\<close> and
  \<^verbatim>\<open>Date.now()\<close> of a request.

  An answer \<open>'a http\<close> is \<open>Unreachable\<close> (\<^verbatim>\<open>fetch\<close> rejects) or a status with a body, where
  the body \<open>None\<close> is not JSON (\<^verbatim>\<open>res.json()\<close> rejects). The bodies are typed as the
  handler reads them. Every call of an upstream service, and every call of the heuristic
  parser, is recorded as an \<open>event\<close>; a function that makes calls returns its events, in
  the order the calls are issued, with its result.
\<close>

datatype 'a http = Unreachable | Status nat "'a option"

definition ok :: "nat \<Rightarrow> bool" where
  "ok code \<longleftrightarrow> 200 \<le> code \<and> code \<le> 299"

datatype json = JNull | JBool bool | JNum real | JStr jsstring | JArr "json list"
  | JObj "(jsstring \<times> json) list"

text \<open>The hourly series of the forecast service (\<^verbatim>\<open>data?.hourly?.x\<close>); a body without
  \<^verbatim>\<open>hourly\<close> is the record of absent series. An entry of a series may be \<^verbatim>\<open>null\<close>.\<close>

record hourly =
  time :: "jsstring list option"
  temperature_2m :: "real option list option"
  wind_speed_10m :: "real option list option"
  cloud_cover :: "real option list option"
  precipitation :: "real option list option"
  precipitation_probability :: "real option list option"

text \<open>The daily series of the archive service (\<^verbatim>\<open>d?.daily?.x\<close>).\<close>

record daily =
  precipitation_sum :: "real option list option"
  temperature_2m_mean :: "real option list option"
  wind_speed_10m_max :: "real option list option"

text \<open>A value of the point dataset under a day key: absent or \<^verbatim>\<open>null\<close>, the empty string,
  or a value that \<^verbatim>\<open>Number\<close> converts to a number. Its three containers
  \<^verbatim>\<open>d?.properties?.parameter\<close>, \<^verbatim>\<open>d?.parameters\<close>, \<^verbatim>\<open>d?.data?.parameters\<close>.\<close>

datatype raw = RawNull | RawEmpty | RawNumber real

record container =
  PRECTOTCORR :: "jsstring \<Rightarrow> raw"
  T2M :: "jsstring \<Rightarrow> raw"
  WS10M :: "jsstring \<Rightarrow> raw"

record power_body =
  properties_parameter :: "container option"
  parameters :: "container option"
  data_parameters :: "container option"

text \<open>The answer of the geocoder: not an array, or the parsed coordinates of its results.\<close>

datatype places = NotArray | Places "(real \<times> real) list"

record world =
  now_ms :: int
  env_PARSING_STRICT :: "jsstring option"
  env_OPENROUTER_API_KEY :: "jsstring option"
  Date_parse :: "jsstring \<Rightarrow> int option"
  JSON_parse :: "jsstring \<Rightarrow> json option"
  upstream_openrouter :: "jsstring \<Rightarrow> jsstring option http"
  upstream_nominatim :: "jsstring \<Rightarrow> places http"
  upstream_openmeteo :: "real \<Rightarrow> real \<Rightarrow> jsstring \<Rightarrow> hourly http"
  upstream_era5 :: "real \<Rightarrow> real \<Rightarrow> jsstring \<Rightarrow> daily http"
  upstream_power :: "real \<Rightarrow> real \<Rightarrow> jsstring \<Rightarrow> power_body http"

datatype event = Fetch_OpenRouter jsstring | Fetch_Nominatim jsstring
  | Fetch_OpenMeteo real real jsstring | Fetch_ERA5 real real jsstring
  | Fetch_POWER real real jsstring | Call_parseFrenchFallback jsstring

text \<open>\<^verbatim>\<open>const res = await fetch(url); if (!res.ok) throw new Error(msg); await res.json()\<close>\<close>

definition fetch_json :: "'a http \<Rightarrow> (nat \<Rightarrow> jsstring) \<Rightarrow> exn + 'a" where
  "fetch_json answer msg = (case answer of
       Unreachable \<Rightarrow> Inl (TypeError (js ''fetch failed''))
     | Status code b \<Rightarrow>
         if \<not> ok code then Inl (Error (msg code))
         else (case b of None \<Rightarrow> Inl (SyntaxError (js ''Unexpected token'')) | Some v \<Rightarrow> Inr v))"

text \<open>The outcome of a promise, as \<^verbatim>\<open>Promise.allSettled\<close> reports it.\<close>

fun settle :: "exn + 'a \<Rightarrow> 'a settled" where
  "settle (Inl e) = Rejected e"
| "settle (Inr v) = Fulfilled v"

section \<open>Forecast source\<close>

record Forecast =
  tempC :: "real option"
  windSpeed :: "real option"
  cloud :: "real option"
  precipMm :: "real option"
  precipProb :: "real option"

definition endsWith :: "jsstring \<Rightarrow> jsstring \<Rightarrow> bool" where
  "endsWith t s \<longleftrightarrow> length s \<le> length t \<and> drop (length t - length s) t = s"

text \<open>\<^verbatim>\<open>xs.findIndex(P)\<close>: \<open>None\<close> is -1.\<close>

fun findIndex :: "('a \<Rightarrow> bool) \<Rightarrow> 'a list \<Rightarrow> nat option" where
  "findIndex P [] = None"
| "findIndex P (x # xs) = (if P x then Some 0 else map_option Suc (findIndex P xs))"

text \<open>\<^verbatim>\<open>xs[i] ?? null\<close>\<close>

definition entry_at :: "'a option list \<Rightarrow> nat \<Rightarrow> 'a option" where
  "entry_at xs i = (if i < length xs then xs ! i else None)"

text \<open>\<^verbatim>\<open>xs.reduce((a, b) => a + (b ?? 0), 0)\<close>\<close>

definition reduce_sum :: "real option list \<Rightarrow> real" where
  "reduce_sum xs = foldl (\<lambda>a b. a + nullish b 0) 0 xs"

text \<open>The sample of \<^verbatim>\<open>fetchGFSviaOpenMeteo\<close> from a successful answer:
  \<^verbatim>\<open>const time = data?.hourly?.time ?? [];  (and t2m, ws10, cc, pr alike)
  const prp = data?.hourly?.precipitation_probability;
  const noonIdx = time.findIndex((t) => t.endsWith('T12:00'));
  const idx = noonIdx >= 0 ? noonIdx : Math.floor(time.length / 2);
  const precipDaySum = pr.reduce((a, b) => a + (b ?? 0), 0);
  const precipProbAvg = prp && prp.length > 0
    ? Math.round(prp.reduce((a, b) => a + (b ?? 0), 0) / prp.length) : null;
  const cloudAvg = cc.length ? Math.round(cc.reduce((a, b) => a + (b ?? 0), 0) / cc.length) : null;
  return { tempC: t2m[idx] ?? null, windSpeed: ws10[idx] ?? null, cloud: cloudAvg,
           precipMm: precipDaySum ?? null, precipProb: precipProbAvg };\<close>\<close>

definition forecast_sample :: "hourly \<Rightarrow> Forecast" where
  "forecast_sample data =
     (let tm = nullish (time data) [];
          t2m = nullish (temperature_2m data) [];
          ws10 = nullish (wind_speed_10m data) [];
          cc = nullish (cloud_cover data) [];
          pr = nullish (precipitation data) [];
          prp = precipitation_probability data;
          idx = (case findIndex (\<lambda>t. endsWith t (js ''T12:00'')) tm of
                   Some noonIdx \<Rightarrow> noonIdx
                 | None \<Rightarrow> length tm div 2);
          precipDaySum = reduce_sum pr;
          precipProbAvg = (case prp of
                             None \<Rightarrow> None
                           | Some xs \<Rightarrow> if length xs > 0
                                        then Some (real_of_int (Math_round (reduce_sum xs / real (length xs))))
                                        else None);
          cloudAvg = (if length cc \<noteq> 0
                      then Some (real_of_int (Math_round (reduce_sum cc / real (length cc))))
                      else None)
      in \<lparr> tempC = entry_at t2m idx, windSpeed = entry_at ws10 idx, cloud = cloudAvg,
           precipMm = Some precipDaySum, precipProb = precipProbAvg \<rparr>)"

text \<open>\<^verbatim>\<open>async function fetchGFSviaOpenMeteo(lat, lon, dateISO) {
    ... const res = await fetch(url.toString(), ...);
    if (!res.ok) throw new Error('Open-Meteo forecast failed');
    const data = await res.json(); ... }\<close>\<close>

definition fetchGFSviaOpenMeteo :: "world \<Rightarrow> real \<Rightarrow> real \<Rightarrow> jsstring \<Rightarrow> event list \<times> (exn + Forecast)" where
  "fetchGFSviaOpenMeteo w lat lon d =
     ([Fetch_OpenMeteo lat lon d],
      (case fetch_json (upstream_openmeteo w lat lon d) (\<lambda>code. js ''Open-Meteo forecast failed'') of
         Inl e \<Rightarrow> Inl e
       | Inr data \<Rightarrow> Inr (forecast_sample data)))"

section \<open>Historical climatology sources\<close>

text \<open>The observation of one year, \<^verbatim>\<open>{ p, t, w }\<close> in the source, and the aggregate
  \<^verbatim>\<open>{ histProb, meanTemp, meanWind }\<close>.\<close>

record observation =
  obs_p :: "real option"
  obs_t :: "real option"
  obs_w :: "real option"

record Hist =
  histProb :: "real option"
  meanTemp :: "real option"
  meanWind :: "real option"

text \<open>The values of the fulfilled promises:
  \<^verbatim>\<open>results.filter((r) => r.status === 'fulfilled').map((r) => r.value)\<close>\<close>

fun fulfilled :: "'a settled list \<Rightarrow> 'a list" where
  "fulfilled [] = []"
| "fulfilled (Fulfilled v # rs) = v # fulfilled rs"
| "fulfilled (Rejected e # rs) = fulfilled rs"

text \<open>The aggregation, which the two historical functions share word for word:
  \<^verbatim>\<open>const precipThreshold = 1; // mm
  const rainOccurrences = values.filter((v) => (v.p ?? 0) >= precipThreshold).length;
  const histProb = values.length ? Math.round((rainOccurrences / values.length) * 100) : null;
  const meanTemp = values.length
    ? Math.round((values.reduce((a, b) => a + ((b.t ?? 0)), 0) / values.length) * 10) / 10 : null;
  const meanWind = values.length
    ? Math.round((values.reduce((a, b) => a + ((b.w ?? 0)), 0) / values.length) * 10) / 10 : null;
  return { histProb, meanTemp, meanWind };\<close>\<close>

definition aggregate_years :: "observation list \<Rightarrow> Hist" where
  "aggregate_years vals =
     (let precipThreshold = 1;
          rainOccurrences = length (filter (\<lambda>v. nullish (obs_p v) 0 \<ge> precipThreshold) vals);
          n = length vals
      in \<lparr> histProb = (if n \<noteq> 0
                        then Some (real_of_int (Math_round ((real rainOccurrences / real n) * 100)))
                        else None),
           meanTemp = (if n \<noteq> 0
                        then Some (real_of_int (Math_round
                               ((foldl (\<lambda>a b. a + nullish (obs_t b) 0) 0 vals / real n) * 10)) / 10)
                        else None),
           meanWind = (if n \<noteq> 0
                        then Some (real_of_int (Math_round
                               ((foldl (\<lambda>a b. a + nullish (obs_w b) 0) 0 vals / real n) * 10)) / 10)
                        else None) \<rparr>)"

text \<open>The month, day and years of the target date:
  \<^verbatim>\<open>const target = new Date(dateISO);
  const month = String(target.getUTCMonth() + 1).padStart(2, '0');
  const day = String(target.getUTCDate()).padStart(2, '0');
  const year = target.getUTCFullYear();
  const years = Array.from({ length: yearsBack }, (_, i) => year - 1 - i);\<close>\<close>

definition target_month :: "world \<Rightarrow> jsstring \<Rightarrow> jsstring" where
  "target_month w d = padStart 2 48 (String_num (map_option (\<lambda>t. MonthFromTime t + 1) (Date_parse w d)))"

definition target_day :: "world \<Rightarrow> jsstring \<Rightarrow> jsstring" where
  "target_day w d = padStart 2 48 (String_num (map_option DateFromTime (Date_parse w d)))"

definition target_years :: "world \<Rightarrow> jsstring \<Rightarrow> nat \<Rightarrow> int option list" where
  "target_years w d yearsBack =
     map (\<lambda>i. map_option (\<lambda>year. year - 1 - int i) (map_option YearFromTime (Date_parse w d)))
       [0..<yearsBack]"






text \<open>\<^verbatim>\<open>const toNum = (v) => (v == null || v === '' ? null : Number(v));\<close>\<close>

fun toNum :: "raw \<Rightarrow> real option" where
  "toNum RawNull = None"
| "toNum RawEmpty = None"
| "toNum (RawNumber x) = Some x"

text \<open>\<^verbatim>\<open>fetchOne\<close> of \<^verbatim>\<open>fetchHistoricalPOWERForDay\<close>, for the key \<^verbatim>\<open>`${y}${month}${day}`\<close>:
  \<^verbatim>\<open>if (!res.ok) throw new Error(`POWER fetch failed (${res.status})`);
  const d = await res.json();
  const container = (d?.properties?.parameter || d?.parameters || d?.data?.parameters || {});
  const pRaw = container?.PRECTOTCORR?.[ymd]; ...
  return { p: toNum(pRaw), t: toNum(tRaw), w: toNum(wRaw) };\<close>\<close>

definition fetchOne_POWER :: "world \<Rightarrow> real \<Rightarrow> real \<Rightarrow> jsstring \<Rightarrow> exn + observation" where
  "fetchOne_POWER w lat lon ymd =
     (case fetch_json (upstream_power w lat lon ymd)
             (\<lambda>code. js ''POWER fetch failed ('' @ digits code @ js '')'') of
        Inl e \<Rightarrow> Inl e
      | Inr d \<Rightarrow>
          (case (case properties_parameter d of Some c \<Rightarrow> Some c
                 | None \<Rightarrow> (case parameters d of Some c \<Rightarrow> Some c | None \<Rightarrow> data_parameters d)) of
             None \<Rightarrow> Inr \<lparr> obs_p = None, obs_t = None, obs_w = None \<rparr>
           | Some c \<Rightarrow> Inr \<lparr> obs_p = toNum (PRECTOTCORR c ymd), obs_t = toNum (T2M c ymd),
                            obs_w = toNum (WS10M c ymd) \<rparr>))"

definition power_keys :: "world \<Rightarrow> jsstring \<Rightarrow> nat \<Rightarrow> jsstring list" where
  "power_keys w d yearsBack =
     map (\<lambda>y. String_num y @ target_month w d @ target_day w d) (target_years w d yearsBack)"

definition power_results :: "world \<Rightarrow> real \<Rightarrow> real \<Rightarrow> jsstring \<Rightarrow> nat \<Rightarrow> observation settled list" where
  "power_results w lat lon d yearsBack =
     map (\<lambda>ymd. settle (fetchOne_POWER w lat lon ymd)) (power_keys w d yearsBack)"

definition fetchHistoricalPOWERForDay :: "world \<Rightarrow> real \<Rightarrow> real \<Rightarrow> jsstring \<Rightarrow> nat \<Rightarrow> event list \<times> Hist" where
  "fetchHistoricalPOWERForDay w lat lon d yearsBack =
     (map (Fetch_POWER lat lon) (power_keys w d yearsBack),
      aggregate_years (fulfilled (power_results w lat lon d yearsBack)))"

section \<open>AI parser client\<close>

definition empty_intent :: intent where
  "empty_intent = \<lparr> location = None, dateISO = None, activity = None \<rparr>"

text \<open>\<^verbatim>\<open>(typeof obj.x === 'string' && obj.x)\<close> for an \<open>obj\<close> that is not \<^verbatim>\<open>null\<close>: the
  property when it is a non-empty string. Only an object has the properties asked for.\<close>

definition string_prop :: "json \<Rightarrow> jsstring \<Rightarrow> jsstring option" where
  "string_prop obj name = (case obj of
       JObj kvs \<Rightarrow> (case map_of kvs name of
                      Some (JStr v) \<Rightarrow> if v = [] then None else Some v
                    | _ \<Rightarrow> None)
     | _ \<Rightarrow> None)"

text \<open>\<^verbatim>\<open>a || b || ... || undefined\<close> over such properties.\<close>

fun first_string :: "json \<Rightarrow> jsstring list \<Rightarrow> jsstring option" where
  "first_string obj [] = None"
| "first_string obj (n # ns) =
     (case string_prop obj n of Some v \<Rightarrow> Some v | None \<Rightarrow> first_string obj ns)"

text \<open>The \<^verbatim>\<open>try\<close> block of \<^verbatim>\<open>parseWithOpenRouter\<close>, whose \<^verbatim>\<open>catch\<close> returns \<^verbatim>\<open>{}\<close>:
  \<^verbatim>\<open>JSON.parse\<close> throws on content that is not JSON, and reading a property of \<^verbatim>\<open>null\<close>
  throws.
  \<^verbatim>\<open>const obj = JSON.parse(content);
  const rawLocation = (typeof obj.location === 'string' && obj.location) ||
    (typeof obj.lieu === 'string' && obj.lieu) ||
    (typeof obj.ville === 'string' && obj.ville) || undefined;
  const rawDate = (... obj.dateISO) || (... obj.date) || undefined;
  const rawActivity = (... obj.activity) || (... obj.activite) || undefined;
  const location = sanitizeLocationString(rawLocation);
  const dateISO = normalizeDateISO(rawDate);
  const activity = rawActivity ?? null;
  return { location, dateISO, activity };\<close>\<close>

definition parse_content :: "world \<Rightarrow> jsstring \<Rightarrow> intent" where
  "parse_content w content = (case JSON_parse w content of
       None \<Rightarrow> empty_intent
     | Some JNull \<Rightarrow> empty_intent
     | Some obj \<Rightarrow>
         (let rawLocation = first_string obj [js ''location'', js ''lieu'', js ''ville''];
              rawDate = first_string obj [js ''dateISO'', js ''date''];
              rawActivity = first_string obj [js ''activity'', js ''activite'']
          in \<lparr> location = sanitizeLocationString rawLocation,
               dateISO = normalizeDateISO (Date_parse w) rawDate,
               activity = rawActivity \<rparr>))"

text \<open>\<^verbatim>\<open>async function parseWithOpenRouter(query) {
    const apiKey = process.env.OPENROUTER_API_KEY;
    if (!apiKey) return {};
    ...
    const resp = await fetch('https://openrouter.ai/api/v1/chat/completions', ...);
    if (!resp.ok) throw new Error('OpenRouter parse failed');
    const data = await resp.json();
    const content = data?.choices?.[0]?.message?.content;
    if (typeof content !== 'string') return {};
    try { ... } catch { return {}; } }\<close>
  The body of the answer is the content when it is a string.\<close>

definition parseWithOpenRouter :: "world \<Rightarrow> jsstring \<Rightarrow> event list \<times> (exn + intent)" where
  "parseWithOpenRouter w query = (case env_OPENROUTER_API_KEY w of
       None \<Rightarrow> ([], Inr empty_intent)
     | Some apiKey \<Rightarrow>
         if apiKey = [] then ([], Inr empty_intent)
         else ([Fetch_OpenRouter query],
               (case fetch_json (upstream_openrouter w query) (\<lambda>code. js ''OpenRouter parse failed'') of
                  Inl e \<Rightarrow> Inl e
                | Inr None \<Rightarrow> Inr empty_intent
                | Inr (Some content) \<Rightarrow> Inr (parse_content w content))))"

section \<open>Geocoder client\<close>

text \<open>\<^verbatim>\<open>encodeURIComponent\<close> throws a \<^verbatim>\<open>URIError\<close> on a string with a lone surrogate.\<close>

fun well_formed :: "jsstring \<Rightarrow> bool" where
  "well_formed [] = True"
| "well_formed [c] = (\<not> (0xD800 \<le> c \<and> c \<le> 0xDFFF))"
| "well_formed (c # d # cs) =
     (if 0xD800 \<le> c \<and> c \<le> 0xDBFF then 0xDC00 \<le> d \<and> d \<le> 0xDFFF \<and> well_formed cs
      else if 0xDC00 \<le> c \<and> c \<le> 0xDFFF then False
      else well_formed (d # cs))"

text \<open>\<^verbatim>\<open>async function geocodeNominatim(location) {
    const url = `https://...&q=${encodeURIComponent(location)}&limit=1`;
    const res = await fetch(url, ...);
    if (!res.ok) throw new Error('Geocoding failed');
    const arr = await res.json();
    if (!Array.isArray(arr) || arr.length === 0) throw new Error('Lieu introuvable');
    return { lat: parseFloat(arr[0].lat), lon: parseFloat(arr[0].lon) }; }\<close>\<close>

definition geocodeNominatim :: "world \<Rightarrow> jsstring \<Rightarrow> event list \<times> (exn + real \<times> real)" where
  "geocodeNominatim w place =
     (if \<not> well_formed place then ([], Inl (URIError (js ''URI malformed'')))
      else ([Fetch_Nominatim place],
            (case fetch_json (upstream_nominatim w place) (\<lambda>code. js ''Geocoding failed'') of
               Inl e \<Rightarrow> Inl e
             | Inr NotArray \<Rightarrow> Inl (Error (js ''Lieu introuvable''))
             | Inr (Places []) \<Rightarrow> Inl (Error (js ''Lieu introuvable''))
             | Inr (Places (pt # rest)) \<Rightarrow> Inr pt)))"

section \<open>Resolution orchestrator\<close>

text \<open>The request body \<^verbatim>\<open>{ query, lat, lon, date, activity }\<close> (the fields carry the
  prefix \<open>b_\<close>: the handler reassigns the variables it destructures them into).\<close>

record body =
  b_query :: "jsstring option"
  b_lat :: "real option"
  b_lon :: "real option"
  b_date :: "jsstring option"
  b_activity :: "jsstring option"

record prediction =
  rainRisk :: real
  wind :: jsstring
  temp :: "real option"
  source :: jsstring
  date :: jsstring

text \<open>The responses of the handler: the prediction (status 200); the strict-mode failure
  (422) with its message and the details \<^verbatim>\<open>location\<close>, \<^verbatim>\<open>dateISO\<close>, \<^verbatim>\<open>activity\<close>; the
  missing coordinates (400); the outer \<^verbatim>\<open>catch\<close> (500) with the message of the
  exception.\<close>

datatype response = Json200 prediction | Json422 jsstring bool bool "jsstring option"
  | Json400 jsstring | Json500 jsstring

fun status :: "response \<Rightarrow> nat" where
  "status (Json200 r) = 200"
| "status (Json422 m l d a) = 422"
| "status (Json400 m) = 400"
| "status (Json500 m) = 500"

text \<open>A part of the handler goes on with a value, returns a response, or throws.\<close>

datatype 'a step = Continue 'a | Return response | Throw exn

text \<open>Truthiness of an optional string, \<^verbatim>\<open>a ?? b\<close> and \<^verbatim>\<open>a || b\<close>.\<close>

definition truthy :: "jsstring option \<Rightarrow> bool" where
  "truthy x = (case x of None \<Rightarrow> False | Some v \<Rightarrow> v \<noteq> [])"

fun coalesce :: "'a option \<Rightarrow> 'a option \<Rightarrow> 'a option" where
  "coalesce None b = b"
| "coalesce (Some v) b = Some v"

definition or_else :: "jsstring option \<Rightarrow> jsstring option \<Rightarrow> jsstring option" where
  "or_else a b = (if truthy a then a else b)"

definition incomplete_message :: jsstring where
  "incomplete_message = js ''Extraction par le mod'' @ [0xE8]
     @ js ''le incompl'' @ [0xE8] @ js ''te: 'location' et/ou 'dateISO' manquent''"

text \<open>Part 1, reception and parsing:
  \<^verbatim>\<open>let location;
  if (query && typeof query === 'string' && query.trim().length > 0) {
    const parsed = await parseWithOpenRouter(query).catch(() => ({}));
    location = parsed.location ?? location;
    activity = parsed.activity ?? activity;
    date = parsed.dateISO ?? date;
    const strict = process.env.PARSING_STRICT === 'true';
    if (strict && (!location || !date)) {
      return NextResponse.json({ error: "...",
        details: { location: !!location, dateISO: !!date, activity: activity ?? null },
      }, { status: 422 });
    }
    if (!location || !date) {
      const fb = parseFrenchFallback(query);
      location = location || fb.location;
      date = date || fb.dateISO;
      activity = activity || fb.activity;
    }
  }\<close>
  The result is \<open>(location, date, activity)\<close>.\<close>

definition POST_part1 :: "world \<Rightarrow> body
    \<Rightarrow> event list \<times> (jsstring option \<times> jsstring option \<times> jsstring option) step" where
  "POST_part1 w b = (case b_query b of
       None \<Rightarrow> ([], Continue (None, b_date b, b_activity b))
     | Some query \<Rightarrow>
         if query = [] \<or> \<not> length (trim query) > 0
         then ([], Continue (None, b_date b, b_activity b))
         else
           (let (ev, r) = parseWithOpenRouter w query;
                parsed = (case r of Inl e \<Rightarrow> empty_intent | Inr i \<Rightarrow> i);
                location1 = coalesce (location parsed) None;
                activity1 = coalesce (activity parsed) (b_activity b);
                date1 = coalesce (dateISO parsed) (b_date b);
                strict = (env_PARSING_STRICT w = Some (js ''true''))
            in if strict \<and> (\<not> truthy location1 \<or> \<not> truthy date1)
               then (ev, Return (Json422 incomplete_message (truthy location1) (truthy date1) activity1))
               else if \<not> truthy location1 \<or> \<not> truthy date1
               then (case parseFrenchFallback (now_ms w) query of
                       Inl e \<Rightarrow> (ev @ [Call_parseFrenchFallback query], Throw e)
                     | Inr fb \<Rightarrow>
                         (ev @ [Call_parseFrenchFallback query],
                          Continue (or_else location1 (location fb), or_else date1 (dateISO fb),
                                    or_else activity1 (activity fb))))
               else (ev, Continue (location1, date1, activity1))))"

text \<open>The default date:
  \<^verbatim>\<open>if (!date) {
    const d = new Date(Date.now() + 7 * 24 * 60 * 60 * 1000);
    date = toISODate(d); }\<close>\<close>

definition POST_default_date :: "world \<Rightarrow> jsstring option \<Rightarrow> exn + jsstring" where
  "POST_default_date w date0 = (case date0 of
       Some d \<Rightarrow> if d \<noteq> [] then Inr d else toISODate (TimeClip (now_ms w + 7 * 24 * 60 * 60 * 1000))
     | None \<Rightarrow> toISODate (TimeClip (now_ms w + 7 * 24 * 60 * 60 * 1000)))"

text \<open>The aggressively stripped query:
  \<^verbatim>\<open>const cleaned = query
    .replace(/\ble\s*\d{1,2}\s*[a-zA-Z...]+/gi, '')
    .replace(/\b(vacances|rando|plage|mariage|sport|ext\<close>e-acute\<^verbatim>\<open>rieur|exterieur)\b/gi, '')
    .replace(/\b\<close>a-grave\<^verbatim>\<open>\b/gi, '')
    .replace(/\b20\d{2}\b/g, '')
    .replace(/\b\d{1,4}\b/g, '')
    .trim();\<close>\<close>

definition re_clean_date :: regex where
  "re_clean_date = seqs [WordB, lit (js ''le''), rstar [Space], Rep 1 (Some 2) True [Digit],
     rstar [Space], rplus fr_letters]"

definition re_clean_activity :: regex where
  "re_clean_activity = seqs [WordB,
     Grp 1 (alts (lit (js ''vacances'')) [lit (js ''rando''), lit (js ''plage''),
       lit (js ''mariage''), lit (js ''sport''), lit exterieur_accent, lit (js ''exterieur'')]),
     WordB]"

definition re_clean_a :: regex where
  "re_clean_a = seqs [WordB, Atom [Ch 0xE0], WordB]"

definition re_clean_year :: regex where
  "re_clean_year = seqs [WordB, lit (js ''20''), Rep 2 (Some 2) True [Digit], WordB]"

definition re_clean_number :: regex where
  "re_clean_number = seqs [WordB, Rep 1 (Some 4) True [Digit], WordB]"

definition cleaned_query :: "jsstring \<Rightarrow> jsstring" where
  "cleaned_query query =
     trim (replace_all False re_clean_number []
       (replace_all False re_clean_year []
         (replace_all True re_clean_a []
           (replace_all True re_clean_activity []
             (replace_all True re_clean_date [] query)))))"

text \<open>\<^verbatim>\<open>try { const pt = await geocodeNominatim(x); lat = pt.lat; lon = pt.lon; } catch {}\<close>\<close>

definition try_geocode :: "world \<Rightarrow> jsstring \<Rightarrow> real option \<times> real option
    \<Rightarrow> event list \<times> (real option \<times> real option)" where
  "try_geocode w place coords = (case geocodeNominatim w place of
       (ev, Inl e) \<Rightarrow> (ev, coords)
     | (ev, Inr (la, lo)) \<Rightarrow> (ev, (Some la, Some lo)))"

definition missing_message :: jsstring where
  "missing_message = js ''Missing coordinates or resolvable location''"

text \<open>The coordinates:
  \<^verbatim>\<open>if ((lat == null || lon == null) && location) {
    const pt = await geocodeNominatim(location);
    lat = pt.lat; lon = pt.lon;
  }
  // As a last resort, try geocoding a cleaned query if still missing coords
  if ((lat == null || lon == null) && query) {
    const candidate = extractCandidateLocation(query);
    if (candidate) { try { ... geocodeNominatim(candidate) ... } catch {} }
    const cleaned = query.replace(...)...trim();
    if (cleaned) { try { ... geocodeNominatim(cleaned) ... } catch {} }
  }
  if (typeof lat !== 'number' || typeof lon !== 'number') {
    return NextResponse.json({ error: 'Missing coordinates or resolvable location' }, { status: 400 });
  }\<close>\<close>

definition POST_coordinates :: "world \<Rightarrow> body \<Rightarrow> jsstring option \<Rightarrow> event list \<times> (real \<times> real) step" where
  "POST_coordinates w b location0 =
     (let (ev1, r1) =
            (if (b_lat b = None \<or> b_lon b = None) \<and> truthy location0
             then (case geocodeNominatim w (nullish location0 []) of
                     (ev, Inl e) \<Rightarrow> (ev, Inl e)
                   | (ev, Inr (la, lo)) \<Rightarrow> (ev, Inr (Some la, Some lo)))
             else ([], Inr (b_lat b, b_lon b)))
      in case r1 of
           Inl e \<Rightarrow> (ev1, Throw e)
         | Inr (lat1, lon1) \<Rightarrow>
             (let (ev2, (lat2, lon2)) =
                    (if (lat1 = None \<or> lon1 = None) \<and> truthy (b_query b)
                     then
                       (let query = nullish (b_query b) [];
                            candidate = extractCandidateLocation query;
                            (evc, c1) = (if truthy candidate
                                         then try_geocode w (nullish candidate []) (lat1, lon1)
                                         else ([], (lat1, lon1)));
                            cleaned = cleaned_query query;
                            (evd, c2) = (if cleaned \<noteq> [] then try_geocode w cleaned c1
                                         else ([], c1))
                        in (evc @ evd, c2))
                     else ([], (lat1, lon1)))
              in case (lat2, lon2) of
                   (Some la, Some lo) \<Rightarrow> (ev1 @ ev2, Continue (la, lo))
                 | _ \<Rightarrow> (ev1 @ ev2, Return (Json400 missing_message))))"

text \<open>Part 2, the horizon:
  \<^verbatim>\<open>const now = new Date();
  const target = new Date(date);
  const dateISO = toISODate(target);
  const daysAhead = Math.floor((target.getTime() - now.getTime()) / (1000 * 60 * 60 * 24));
  const isFuture = target > now;
  const within16d = daysAhead <= 16; // Horizon de GFS\<close>\<close>

definition daysAhead :: "int \<Rightarrow> int \<Rightarrow> int" where
  "daysAhead target now = (target - now) div (1000 * 60 * 60 * 24)"

definition isFuture :: "int \<Rightarrow> int \<Rightarrow> bool" where
  "isFuture target now \<longleftrightarrow> target > now"

definition within16d :: "int \<Rightarrow> int \<Rightarrow> bool" where
  "within16d target now \<longleftrightarrow> daysAhead target now \<le> 16"

text \<open>Part 3, the sources, on the outcomes of the two promises. In the near future
  \<^verbatim>\<open>const [f, h] = await Promise.allSettled([fetchGFSviaOpenMeteo(...), fetchHistoricalPOWERForDay(...)]);
  if (f.status === 'fulfilled') forecast = f.value; else forecast = null;
  if (h.status === 'fulfilled') hist = h.value; else hist = null;\<close>
  and otherwise \<^verbatim>\<open>hist = await fetchHistoricalPOWERForDay(lat, lon, dateISO, 10);\<close>\<close>

fun fulfilled_value :: "'a settled \<Rightarrow> 'a option" where
  "fulfilled_value (Fulfilled v) = Some v"
| "fulfilled_value (Rejected e) = None"

definition POST_part3 :: "bool \<Rightarrow> Forecast settled \<Rightarrow> Hist settled \<Rightarrow> (Forecast option \<times> Hist option) step" where
  "POST_part3 near f h =
     (if near then Continue (fulfilled_value f, fulfilled_value h)
      else (case h of Fulfilled v \<Rightarrow> Continue (None, Some v) | Rejected e \<Rightarrow> Throw e))"

text \<open>\<^verbatim>\<open>function labelWind(ms) {
    if (ms == null) return 'inconnu';
    if (ms > 10) return 'fort';
    if (ms > 5) return 'mod\<close>e-acute\<^verbatim>\<open>r\<close>e-acute\<^verbatim>\<open>';
    return 'faible'; }\<close>\<close>

definition modere :: jsstring where
  "modere = js ''mod'' @ [0xE9] @ js ''r'' @ [0xE9]"

definition labelWind :: "real option \<Rightarrow> jsstring" where
  "labelWind ms = (case ms of
       None \<Rightarrow> js ''inconnu''
     | Some v \<Rightarrow> if v > 10 then js ''fort'' else if v > 5 then modere else js ''faible'')"

text \<open>\<^verbatim>\<open>function riskFromPrecipMm(mm) {
    if (mm == null) return 50;
    const x = Math.max(0, mm);
    const risk = Math.round(100 / (1 + Math.exp(-(x - 3))));
    return Math.min(100, Math.max(0, risk)); }\<close>\<close>

definition riskFromPrecipMm :: "real option \<Rightarrow> real" where
  "riskFromPrecipMm mm = (case mm of
       None \<Rightarrow> 50
     | Some v \<Rightarrow>
         (let x = max 0 v;
              risk = real_of_int (Math_round (100 / (1 + exp (- (x - 3)))))
          in min 100 (max 0 risk)))"

text \<open>\<^verbatim>\<open>/vacances|ext\<close>e-acute\<^verbatim>\<open>rieur|rando|plage/i\<close>\<close>

definition re_outdoor :: regex where
  "re_outdoor = alts (lit (js ''vacances'')) [lit exterieur_accent, lit (js ''rando''), lit (js ''plage'')]"

text \<open>Part 4, the rain risk:
  \<^verbatim>\<open>let rainRisk = null;
  if (forecast?.precipProb != null) {
    const fProb = forecast.precipProb;
    const hProb = hist?.histProb ?? fProb;
    rainRisk = Math.round(0.7 * fProb + 0.3 * hProb);
  } else if (forecast?.precipMm != null) {
    const fProb = riskFromPrecipMm(forecast.precipMm);
    const hProb = hist?.histProb ?? fProb;
    rainRisk = Math.round(0.7 * fProb + 0.3 * hProb);
  } else if (hist?.histProb != null) {
    rainRisk = hist.histProb;
  } else {
    rainRisk = 50;
  }
  if (activity && /vacances|...|rando|plage/i.test(activity)) {
    rainRisk = Math.min(100, Math.round((rainRisk ?? 50) * 1.15));
  }\<close>
  \<open>chain x f\<close> is \<^verbatim>\<open>x?.f\<close>.\<close>

definition chain :: "'a option \<Rightarrow> ('a \<Rightarrow> 'b option) \<Rightarrow> 'b option" where
  "chain x f = (case x of None \<Rightarrow> None | Some v \<Rightarrow> f v)"

definition blended_risk :: "Forecast option \<Rightarrow> Hist option \<Rightarrow> real" where
  "blended_risk forecast hist =
     (case chain forecast precipProb of
        Some fProb \<Rightarrow>
          (let hProb = nullish (chain hist histProb) fProb
           in real_of_int (Math_round (0.7 * fProb + 0.3 * hProb)))
      | None \<Rightarrow>
          (case chain forecast precipMm of
             Some mm \<Rightarrow>
               (let fProb = riskFromPrecipMm (Some mm);
                    hProb = nullish (chain hist histProb) fProb
                in real_of_int (Math_round (0.7 * fProb + 0.3 * hProb)))
           | None \<Rightarrow>
               (case chain hist histProb of
                  Some h \<Rightarrow> h
                | None \<Rightarrow> 50)))"

definition outdoor :: "jsstring option \<Rightarrow> bool" where
  "outdoor a \<longleftrightarrow> truthy a \<and> regex_test True re_outdoor (nullish a [])"

definition rain_risk :: "Forecast option \<Rightarrow> Hist option \<Rightarrow> jsstring option \<Rightarrow> real" where
  "rain_risk forecast hist a =
     (let r = blended_risk forecast hist
      in if outdoor a then min 100 (real_of_int (Math_round (r * 1.15))) else r)"

text \<open>Parts 4 and 5, the response:
  \<^verbatim>\<open>let tempC = forecast?.tempC ?? hist?.meanTemp ?? null;
  let windSpeed = forecast?.windSpeed ?? hist?.meanWind ?? null;
  ...
  const wind = labelWind(windSpeed);
  const response = {
    rainRisk: rainRisk ?? 50,
    wind,
    temp: tempC != null ? Math.round(tempC * 10) / 10 : null,
    source: isFuture && within16d ? 'GFS+ERA5' : 'ERA5',
    date: dateISO };\<close>\<close>

definition resolved_wind :: "Forecast option \<Rightarrow> Hist option \<Rightarrow> real option" where
  "resolved_wind forecast hist = coalesce (chain forecast windSpeed) (chain hist meanWind)"

definition resolved_temp :: "Forecast option \<Rightarrow> Hist option \<Rightarrow> real option" where
  "resolved_temp forecast hist = coalesce (chain forecast tempC) (chain hist meanTemp)"

definition POST_part4_5 :: "bool \<Rightarrow> jsstring \<Rightarrow> jsstring option \<Rightarrow> Forecast option \<Rightarrow> Hist option \<Rightarrow> prediction" where
  "POST_part4_5 near d a forecast hist =
     \<lparr> rainRisk = rain_risk forecast hist a,
       wind = labelWind (resolved_wind forecast hist),
       temp = map_option (\<lambda>v. real_of_int (Math_round (v * 10)) / 10) (resolved_temp forecast hist),
       source = (if near then js ''GFS+ERA5'' else js ''ERA5''),
       date = d \<rparr>"

text \<open>Parts 2 to 5, for the coordinates, the date string and the activity that part 1
  and the geocoding resolved. The forecast is requested in the near future only.\<close>

definition POST_forecast :: "world \<Rightarrow> real \<Rightarrow> real \<Rightarrow> jsstring \<Rightarrow> jsstring option \<Rightarrow> event list \<times> response" where
  "POST_forecast w la lo date0 a =
     (let now = now_ms w;
          target = Date_parse w date0
      in case toISODate target of
           Inl e \<Rightarrow> ([], Json500 (message e))
         | Inr d \<Rightarrow>
             (let near = (case target of None \<Rightarrow> False
                          | Some t \<Rightarrow> isFuture t now \<and> within16d t now);
                  (evf, f) = fetchGFSviaOpenMeteo w la lo d;
                  (evh, h) = fetchHistoricalPOWERForDay w la lo d 10;
                  ev = (if near then evf @ evh else evh)
              in case POST_part3 near (settle f) (Fulfilled h) of
                   Continue (forecast, hist) \<Rightarrow> (ev, Json200 (POST_part4_5 near d a forecast hist))
                 | Return r \<Rightarrow> (ev, r)
                 | Throw e \<Rightarrow> (ev, Json500 (message e))))"

text \<open>\<^verbatim>\<open>export async function POST(request) { try { ... } catch (e) {
    return NextResponse.json({ error: e?.message ?? 'Internal error' }, { status: 500 }); } }\<close>\<close>

definition POST :: "world \<Rightarrow> body \<Rightarrow> event list \<times> response" where
  "POST w b = (case POST_part1 w b of
       (ev1, Return r) \<Rightarrow> (ev1, r)
     | (ev1, Throw e) \<Rightarrow> (ev1, Json500 (message e))
     | (ev1, Continue (location0, date0, a)) \<Rightarrow>
         (case POST_default_date w date0 of
            Inl e \<Rightarrow> (ev1, Json500 (message e))
          | Inr date1 \<Rightarrow>
              (case POST_coordinates w b location0 of
                 (ev2, Return r) \<Rightarrow> (ev1 @ ev2, r)
               | (ev2, Throw e) \<Rightarrow> (ev1 @ ev2, Json500 (message e))
               | (ev2, Continue (la, lo)) \<Rightarrow>
                   (let (ev3, r) = POST_forecast w la lo date1 a in (ev1 @ ev2 @ ev3, r)))))"

section \<open>What the specification says, in its own words\<close>

text \<open>The definitions of this section follow the sentences of the specification, not
  the code; the theorems compare them with the handler.\<close>









definition ci_prefix :: "jsstring \<Rightarrow> jsstring \<Rightarrow> bool" where
  "ci_prefix word s \<longleftrightarrow>
     length word \<le> length s \<and> map canon (take (length word) s) = map canon word"


text \<open>"Assuming all upstream percentage inputs lie in [0,100]": every precipitation
  probability of every forecast answer. A percentage of the response: an integer from 0
  to 100.\<close>

definition percentages_in_range :: "world \<Rightarrow> bool" where
  "percentages_in_range w \<longleftrightarrow>
     (\<forall>la lo d c data xs v. upstream_openmeteo w la lo d = Status c (Some data)
        \<and> precipitation_probability data = Some xs \<and> Some v \<in> set xs \<longrightarrow> 0 \<le> v \<and> v \<le> 100)"

definition percentage :: "real \<Rightarrow> bool" where
  "percentage x \<longleftrightarrow> x \<in> \<int> \<and> 0 \<le> x \<and> x \<le> 100"

section \<open>Example worlds\<close>





text \<open>A world on 2025-10-01 with a geocoder that knows Paris, a forecast for
  2025-10-10, and a point dataset that answers for 2024 (rain) and 2023 (no rain) and fails
  for the other years. No AI parser is configured.\<close>

definition paris_hourly :: hourly where
  "paris_hourly = \<lparr> time = Some [js ''2025-10-10T00:00'', js ''2025-10-10T12:00''],
     temperature_2m = Some [Some 10, Some 16], wind_speed_10m = Some [Some 3, Some 6],
     cloud_cover = Some [Some 50, Some 70], precipitation = Some [Some 0, Some 2],
     precipitation_probability = Some [Some 70, Some 90] \<rparr>"

definition power_day :: "real \<Rightarrow> real \<Rightarrow> real \<Rightarrow> power_body" where
  "power_day p t w = \<lparr> properties_parameter = Some \<lparr> PRECTOTCORR = (\<lambda>k. RawNumber p),
       T2M = (\<lambda>k. RawNumber t), WS10M = (\<lambda>k. RawNumber w) \<rparr>,
     parameters = None, data_parameters = None \<rparr>"

definition paris_world :: world where
  "paris_world = \<lparr> now_ms = 1759276800000, env_PARSING_STRICT = None,
     env_OPENROUTER_API_KEY = None,
     Date_parse = (\<lambda>s. if s = js ''2025-10-10'' then Some 1760054400000 else None),
     JSON_parse = (\<lambda>s. None),
     upstream_openrouter = (\<lambda>q. Unreachable),
     upstream_nominatim = (\<lambda>q. if q = js ''Paris'' then Status 200 (Some (Places [(49, 2)]))
                                else Status 200 (Some (Places []))),
     upstream_openmeteo = (\<lambda>la lo d. Status 200 (Some paris_hourly)),
     upstream_era5 = (\<lambda>la lo d. Unreachable),
     upstream_power = (\<lambda>la lo ymd.
        if ymd = js ''20241010'' then Status 200 (Some (power_day 2 14 4))
        else if ymd = js ''20231010'' then Status 200 (Some (power_day 0 12 2))
        else Status 503 None) \<rparr>"

text \<open>A request with coordinates and a date, and a request with a query only.\<close>

definition direct_request :: body where
  "direct_request = \<lparr> b_query = None, b_lat = Some 49, b_lon = Some 2,
     b_date = Some (js ''2025-10-10''), b_activity = Some (js ''vacances'') \<rparr>"

definition paris_query :: jsstring where
  "paris_query = js ''Vacances a Paris le 10 octobre 2025''"

definition query_request :: body where
  "query_request = \<lparr> b_query = Some paris_query, b_lat = None,
     b_lon = None, b_date = None, b_activity = None \<rparr>"

text \<open>The keys the point dataset is asked for, the calls of the forecast branch, and
  the prediction, for the request with coordinates in the world of Paris.\<close>

definition paris_keys :: "jsstring list" where
  "paris_keys = [js ''20241010'', js ''20231010'', js ''20221010'', js ''20211010'', js ''20201010'',
     js ''20191010'', js ''20181010'', js ''20171010'', js ''20161010'', js ''20151010'']"

definition paris_events :: "event list" where
  "paris_events = Fetch_OpenMeteo 49 2 (js ''2025-10-10'') # map (Fetch_POWER 49 2) paris_keys"

definition paris_prediction :: prediction where
  "paris_prediction = \<lparr> rainRisk = 82, wind = modere, temp = Some 16, source = js ''GFS+ERA5'',
     date = js ''2025-10-10'' \<rparr>"

text \<open>The world of Paris in strict mode, with an AI parser that answers a location and
  nothing else.\<close>

definition content_location :: jsstring where
  "content_location = js ''{'' @ [34] @ js ''location'' @ [34] @ js '':'' @ [34] @ js ''Paris'' @ [34] @ js ''}''"

definition strict_world :: world where
  "strict_world = paris_world \<lparr> env_PARSING_STRICT := Some (js ''true''),
     env_OPENROUTER_API_KEY := Some (js ''key''),
     JSON_parse := (\<lambda>s. if s = content_location then Some (JObj [(js ''location'', JStr (js ''Paris''))]) else None),
     upstream_openrouter := (\<lambda>q. Status 200 (Some (Some content_location))) \<rparr>"



definition sparse_hourly :: hourly where
  "sparse_hourly = paris_hourly \<lparr> precipitation := None, precipitation_probability := None \<rparr>"

text \<open>The world of Paris with an AI parser that answers a location and a date, and no
  activity.\<close>

definition content_location_date :: jsstring where
  "content_location_date = js ''{'' @ [34] @ js ''location'' @ [34] @ js '':'' @ [34] @ js ''Paris'' @ [34]
     @ js '','' @ [34] @ js ''dateISO'' @ [34] @ js '':'' @ [34] @ js ''2025-10-10'' @ [34] @ js ''}''"

definition helpful_world :: world where
  "helpful_world = paris_world \<lparr> env_OPENROUTER_API_KEY := Some (js ''key''),
     JSON_parse := (\<lambda>s. if s = content_location_date
        then Some (JObj [(js ''location'', JStr (js ''Paris'')), (js ''dateISO'', JStr (js ''2025-10-10''))])
        else None),
     upstream_openrouter := (\<lambda>q. Status 200 (Some (Some content_location_date))) \<rparr>"

text \<open>A query whose place the geocoder of the example world does not know; a query
  without a preposition, in a world whose geocoder knows both the capitalized words and
  the stripped query.\<close>

definition lutece_query :: jsstring where
  "lutece_query = js ''Vacances a Lutece le 10 octobre 2025''"

definition lutece_request :: body where
  "lutece_request = \<lparr> b_query = Some lutece_query, b_lat = None, b_lon = None, b_date = None,
     b_activity = None \<rparr>"

definition nice_query :: jsstring where
  "nice_query = js ''Vacances Nice''"

definition nice_request :: body where
  "nice_request = \<lparr> b_query = Some nice_query, b_lat = None, b_lon = None, b_date = None,
     b_activity = None \<rparr>"

definition nice_world :: world where
  "nice_world = paris_world \<lparr> upstream_nominatim :=
     (\<lambda>q. if q = js ''Vacances Nice'' then Status 200 (Some (Places [(1, 1)]))
          else if q = js ''Nice'' then Status 200 (Some (Places [(44, 7)]))
          else Status 200 (Some (Places []))) \<rparr>"

section \<open>The platform functions of the model\<close>

text \<open>The computed year is the year of the ECMAScript specification: the one that starts
  at or before the day and whose successor starts after it.\<close>

lemma DayFromYear_bounds:
  fixes y :: int
  shows "146097 * (y - 1970) - 506 \<le> 400 * DayFromYear y"
    and "400 * DayFromYear y \<le> 146097 * (y - 1970) + 589"
proof -
  define a where "a = (y - 1969) div 4"
  define b where "b = (y - 1901) div 100"
  define c where "c = (y - 1601) div 400"
  have a: "4 * a \<le> y - 1969" "y - 1969 < 4 * a + 4" unfolding a_def by linarith+
  have b: "100 * b \<le> y - 1901" "y - 1901 < 100 * b + 100" unfolding b_def by linarith+
  have c: "400 * c \<le> y - 1601" "y - 1601 < 400 * c + 400" unfolding c_def by linarith+
  have d: "DayFromYear y = 365 * (y - 1970) + a - b + c"
    by (simp add: DayFromYear_def a_def b_def c_def)
  have a1: "100 * y - 197200 \<le> 400 * a" "400 * a \<le> 100 * y - 196900" using a by linarith+
  have b1: "4 * y - 8000 \<le> 400 * b" "400 * b \<le> 4 * y - 7604" using b by linarith+
  have c1: "y - 2000 \<le> 400 * c" "400 * c \<le> y - 1601" using c by linarith+
  have e: "400 * DayFromYear y = 146000 * y - 287620000 + 400 * a - 400 * b + 400 * c"
    unfolding d by (simp add: algebra_simps)
  show "146097 * (y - 1970) - 506 \<le> 400 * DayFromYear y"
    unfolding e using a1 b1 c1 by (simp add: algebra_simps)
  show "400 * DayFromYear y \<le> 146097 * (y - 1970) + 589"
    unfolding e using a1 b1 c1 by (simp add: algebra_simps)
qed

lemma YearFromDay_correct:
  "DayFromYear (YearFromDay d) \<le> d \<and> d < DayFromYear (YearFromDay d + 1)"
proof -
  define k where "k = (400 * d) div 146097"
  have k: "146097 * k \<le> 400 * d" "400 * d < 146097 * k + 146097"
    unfolding k_def by linarith+
  have lo: "400 * DayFromYear (1970 + k - 1) \<le> 146097 * (k - 1) + 589"
    using DayFromYear_bounds(2) [of "1970 + k - 1"] by simp
  have hi: "146097 * (k + 2) - 506 \<le> 400 * DayFromYear (1970 + k + 1 + 1)"
    using DayFromYear_bounds(1) [of "1970 + k + 1 + 1"] by simp
  consider (up) "DayFromYear (1970 + k + 1) \<le> d"
    | (down) "\<not> DayFromYear (1970 + k + 1) \<le> d" "d < DayFromYear (1970 + k)"
    | (here) "\<not> DayFromYear (1970 + k + 1) \<le> d" "\<not> d < DayFromYear (1970 + k)"
    by blast
  then show ?thesis
  proof cases
    case up
    then have y: "YearFromDay d = 1970 + k + 1" by (simp add: YearFromDay_def k_def Let_def)
    from hi k have "400 * d < 400 * DayFromYear (1970 + k + 1 + 1)"
      by (simp add: algebra_simps)
    then have "d < DayFromYear (1970 + k + 1 + 1)" by simp
    with up y show ?thesis by simp
  next
    case down
    then have y: "YearFromDay d = 1970 + k - 1" by (simp add: YearFromDay_def k_def Let_def)
    from lo k have "400 * DayFromYear (1970 + k - 1) \<le> 400 * d"
      by (simp add: algebra_simps)
    then have "DayFromYear (1970 + k - 1) \<le> d" by simp
    with down y show ?thesis by simp
  next
    case here
    then have y: "YearFromDay d = 1970 + k" by (simp add: YearFromDay_def k_def Let_def)
    with here show ?thesis by simp
  qed
qed


text \<open>\<open>variants c\<close> lists exactly the code units with the canonical form of \<open>c\<close>, so a
  class range matches, case-insensitively, when it holds a code unit with the canonical
  form of the input, as \<^verbatim>\<open>CharacterSetMatcher\<close> requires.\<close>

lemma variants_set: "a \<in> set (variants c) \<longleftrightarrow> a = c \<or> (is_lower c \<and> a = c - 32)
   \<or> (is_upper c \<and> a = c + 32) \<or> (c = 255 \<and> a = 376) \<or> (c = 376 \<and> a = 255)
   \<or> (c = 181 \<and> a = 924) \<or> (c = 924 \<and> a = 181)"
  by (simp add: variants_def) blast

lemma canon_lower: "is_lower x \<Longrightarrow> canon x = x - 32 \<and> is_upper (x - 32) \<and> 32 \<le> x"
  unfolding canon_def is_lower_def is_upper_def by (simp; arith)

lemma canon_other: "\<not> is_lower x \<Longrightarrow> x \<noteq> 255 \<Longrightarrow> x \<noteq> 181 \<Longrightarrow> canon x = x"
  by (simp add: canon_def)

lemma canon_special: "canon 255 = 376" "canon 181 = 924" "canon 376 = 376" "canon 924 = 924"
  by (simp_all add: canon_def is_lower_def)

lemma upper_facts: "is_upper x \<Longrightarrow>
    \<not> is_lower x \<and> x \<noteq> 255 \<and> x \<noteq> 181 \<and> x \<noteq> 376 \<and> x \<noteq> 924 \<and> is_lower (x + 32)"
  unfolding is_lower_def is_upper_def by arith

lemma special_facts: "\<not> is_lower 255" "\<not> is_lower 181" "\<not> is_lower 376" "\<not> is_lower 924"
  "\<not> is_upper 255" "\<not> is_upper 181" "\<not> is_upper 376" "\<not> is_upper 924"
  by (simp_all add: is_lower_def is_upper_def)

lemma variants_canon: "a \<in> set (variants c) \<longleftrightarrow> canon a = canon c"
proof
  assume "a \<in> set (variants c)"
  then consider "a = c" | "is_lower c" "a = c - 32" | "is_upper c" "a = c + 32"
    | "c = 255" "a = 376" | "c = 376" "a = 255" | "c = 181" "a = 924" | "c = 924" "a = 181"
    unfolding variants_set by blast
  then show "canon a = canon c"
  proof cases
    case 1
    then show ?thesis by simp
  next
    case 2
    from canon_lower [OF 2(1)] have c: "canon c = c - 32" "is_upper (c - 32)" by simp_all
    from upper_facts [OF c(2)] have "canon (c - 32) = c - 32" by (simp add: canon_other)
    with c 2 show ?thesis by simp
  next
    case 3
    from upper_facts [OF 3(1)] have c: "canon c = c" "is_lower (c + 32)" by (simp_all add: canon_other)
    from canon_lower [OF c(2)] have "canon (c + 32) = c" by simp
    with c 3 show ?thesis by simp
  qed (simp_all add: canon_special)
next
  assume eq: "canon a = canon c"
  consider (ll) "is_lower a" "is_lower c" | (lo) "is_lower a" "\<not> is_lower c"
    | (ol) "\<not> is_lower a" "is_lower c" | (oo) "\<not> is_lower a" "\<not> is_lower c" by blast
  then show "a \<in> set (variants c)"
  proof cases
    case ll
    from canon_lower [OF ll(1)] canon_lower [OF ll(2)] eq
    have "a - 32 = c - 32" "32 \<le> a" "32 \<le> c" by simp_all
    then have "a = c" by arith
    then show ?thesis by (simp add: variants_set)
  next
    case lo
    from canon_lower [OF lo(1)] have a: "canon a = a - 32" "is_upper (a - 32)" "32 \<le> a" by simp_all
    from upper_facts [OF a(2)] have n: "a - 32 \<noteq> 376" "a - 32 \<noteq> 924" by simp_all
    have "canon c = c"
    proof (cases "c = 255 \<or> c = 181")
      case True
      with eq a n show ?thesis by (auto simp add: canon_special)
    next
      case False
      with lo show ?thesis by (simp add: canon_other)
    qed
    with eq a have "c = a - 32" by simp
    with a have "is_upper c" "a = c + 32" by simp_all
    then show ?thesis by (simp add: variants_set)
  next
    case ol
    from canon_lower [OF ol(2)] have c: "canon c = c - 32" "is_upper (c - 32)" "32 \<le> c" by simp_all
    from upper_facts [OF c(2)] have n: "c - 32 \<noteq> 376" "c - 32 \<noteq> 924" by simp_all
    have "canon a = a"
    proof (cases "a = 255 \<or> a = 181")
      case True
      with eq c n show ?thesis by (auto simp add: canon_special)
    next
      case False
      with ol show ?thesis by (simp add: canon_other)
    qed
    with eq c have "a = c - 32" by simp
    with ol show ?thesis by (simp add: variants_set)
  next
    case oo
    have ca: "canon a = (if a = 255 then 376 else if a = 181 then 924 else a)"
      using oo by (simp add: canon_def)
    have cc: "canon c = (if c = 255 then 376 else if c = 181 then 924 else c)"
      using oo by (simp add: canon_def)
    from eq show ?thesis unfolding ca cc variants_set
      by (auto split: if_splits)
  qed
qed

lemma imatch_Rng_canon:
  "imatch True c (Rng lo hi) \<longleftrightarrow> (\<exists>a. lo \<le> a \<and> a \<le> hi \<and> canon a = canon c)"
  by (auto simp add: list_ex_iff variants_canon)

section \<open>Historical aggregation\<close>

lemma foldl_add_sum_list: "foldl (\<lambda>a b. a + f b) z xs = z + sum_list (map f xs)"
  for z :: real
  by (induction xs arbitrary: z) simp_all






section \<open>The matcher on a choice of words\<close>

lemma ci_prefix_Nil [simp]: "ci_prefix [] s"
  by (simp add: ci_prefix_def)

lemma ci_prefix_Cons_Nil [simp]: "\<not> ci_prefix (c # w) []"
  by (simp add: ci_prefix_def)

lemma ci_prefix_Cons_Cons [simp]:
  "ci_prefix (c # w) (x # r) \<longleftrightarrow> canon x = canon c \<and> ci_prefix w r"
  by (auto simp add: ci_prefix_def)










section \<open>Rain risk\<close>







lemma outdoor_vacances: "outdoor (Some (js ''vacances''))"
  by (simp add: outdoor_def truthy_def js_def regex_test_def regex_exec_def re_outdoor_def alts_def lit_def seqs_def cmatch_def canon_def is_lower_def exterieur_accent_def)




section \<open>The shape of a response\<close>

lemma Math_round_range: "0 \<le> x \<Longrightarrow> x \<le> 100 \<Longrightarrow> percentage (real_of_int (Math_round x))"
  unfolding percentage_def Math_round_def by (simp; linarith)

lemma reduce_sum_range:
  "(\<And>v. Some v \<in> set xs \<Longrightarrow> 0 \<le> v \<and> v \<le> 100)
   \<Longrightarrow> 0 \<le> reduce_sum xs \<and> reduce_sum xs \<le> 100 * real (length xs)"
  unfolding reduce_sum_def foldl_add_sum_list
proof (induction xs)
  case Nil
  then show ?case by simp
next
  case (Cons x xs)
  then have ih: "0 \<le> 0 + (\<Sum>b\<leftarrow>xs. nullish b 0) \<and> 0 + (\<Sum>b\<leftarrow>xs. nullish b 0) \<le> 100 * real (length xs)"
    by simp
  have "0 \<le> nullish x 0 \<and> nullish x 0 \<le> 100"
    using Cons.prems [of "the x"] by (cases x) simp_all
  with ih show ?case by simp
qed

lemma forecast_sample_percentage:
  assumes "\<And>xs v. precipitation_probability data = Some xs \<Longrightarrow> Some v \<in> set xs \<Longrightarrow> 0 \<le> v \<and> v \<le> 100"
    and "precipProb (forecast_sample data) = Some x"
  shows "percentage x"
proof (cases "precipitation_probability data")
  case None
  with assms(2) show ?thesis by (simp add: forecast_sample_def Let_def)
next
  case (Some xs)
  show ?thesis
  proof (cases "xs = []")
    case True
    with Some assms(2) show ?thesis by (simp add: forecast_sample_def Let_def)
  next
    case False
    then have n: "0 < real (length xs)" by simp
    have r: "0 \<le> reduce_sum xs \<and> reduce_sum xs \<le> 100 * real (length xs)"
      using assms(1) [OF Some] by (intro reduce_sum_range) blast
    then have "0 \<le> reduce_sum xs / real (length xs)" "reduce_sum xs / real (length xs) \<le> 100"
      using n by (simp_all add: pos_divide_le_eq)
    then have "percentage (real_of_int (Math_round (reduce_sum xs / real (length xs))))"
      by (rule Math_round_range)
    with Some False assms(2) show ?thesis by (auto simp add: forecast_sample_def Let_def)
  qed
qed

lemma aggregate_years_percentage:
  assumes "histProb (aggregate_years ys) = Some x"
  shows "percentage x"
proof (cases "ys = []")
  case True
  with assms show ?thesis by (simp add: aggregate_years_def Let_def)
next
  case False
  define q where "q = real (length (filter (\<lambda>v. 1 \<le> nullish (obs_p v) 0) ys)) / real (length ys)"
  from False have n: "0 < real (length ys)" by simp
  have "length (filter (\<lambda>v. 1 \<le> nullish (obs_p v) 0) ys) \<le> length ys" by (rule length_filter_le)
  then have "q \<le> 1" unfolding q_def using n by (simp add: pos_divide_le_eq)
  then have "q * 100 \<le> 100" by simp
  moreover have "0 \<le> q * 100" unfolding q_def by simp
  ultimately have "percentage (real_of_int (Math_round (q * 100)))"
    by (intro Math_round_range)
  with False assms show ?thesis by (auto simp add: aggregate_years_def Let_def q_def)
qed

lemma riskFromPrecipMm_percentage: "percentage (riskFromPrecipMm mm)"
  by (cases mm) (auto simp add: riskFromPrecipMm_def percentage_def Let_def min_def max_def)

lemma blend_percentage:
  "percentage f \<Longrightarrow> percentage h \<Longrightarrow> percentage (real_of_int (Math_round (0.7 * f + 0.3 * h)))"
  by (rule Math_round_range) (simp_all add: percentage_def)

lemma blended_risk_percentage:
  assumes "\<And>x. chain forecast precipProb = Some x \<Longrightarrow> percentage x"
    and "\<And>x. chain hist histProb = Some x \<Longrightarrow> percentage x"
  shows "percentage (blended_risk forecast hist)"
proof -
  have h: "percentage f \<Longrightarrow> percentage (nullish (chain hist histProb) f)" for f
    using assms(2) by (cases "chain hist histProb") simp_all
  show ?thesis
  proof (cases "chain forecast precipProb")
    case (Some f)
    with assms(1) h have "percentage f" "percentage (nullish (chain hist histProb) f)" by simp_all
    then show ?thesis
      using Some blend_percentage [of f "nullish (chain hist histProb) f"]
      by (simp add: blended_risk_def Let_def)
  next
    case None
    show ?thesis
    proof (cases "chain forecast precipMm")
      case (Some mm)
      have "percentage (riskFromPrecipMm (Some mm))"
        "percentage (nullish (chain hist histProb) (riskFromPrecipMm (Some mm)))"
        using h by (simp_all add: riskFromPrecipMm_percentage)
      then show ?thesis
        using None Some blend_percentage [of "riskFromPrecipMm (Some mm)"
            "nullish (chain hist histProb) (riskFromPrecipMm (Some mm))"]
        by (simp add: blended_risk_def Let_def)
    next
      case nomm: None
      with None assms(2) show ?thesis
        by (cases "chain hist histProb") (simp_all add: blended_risk_def percentage_def)
    qed
  qed
qed

lemma rain_risk_percentage:
  assumes "\<And>x. chain forecast precipProb = Some x \<Longrightarrow> percentage x"
    and "\<And>x. chain hist histProb = Some x \<Longrightarrow> percentage x"
  shows "percentage (rain_risk forecast hist a)"
proof -
  have b: "percentage (blended_risk forecast hist)"
    using assms by (rule blended_risk_percentage)
  then have "0 \<le> blended_risk forecast hist * 1.15" by (simp add: percentage_def)
  then have "0 \<le> Math_round (blended_risk forecast hist * 1.15)"
    unfolding Math_round_def by linarith
  then have "percentage (min 100 (real_of_int (Math_round (blended_risk forecast hist * 1.15))))"
    by (auto simp add: percentage_def min_def)
  with b show ?thesis by (simp add: rain_risk_def Let_def)
qed


lemma POST_part1_Return: "snd (POST_part1 w b) = Return r \<Longrightarrow> status r = 422"
  by (auto simp add: POST_part1_def Let_def case_prod_beta split: option.splits if_splits sum.splits)

lemma POST_coordinates_Return: "snd (POST_coordinates w b l) = Return r \<Longrightarrow> status r = 400"
  by (auto simp add: POST_coordinates_def Let_def case_prod_beta split: option.splits if_splits sum.splits prod.splits)

lemma POST_200:
  assumes "snd (POST w b) = Json200 r"
  shows "\<exists>la lo d0 a. snd (POST_forecast w la lo d0 a) = Json200 r"
proof -
  have p1: "snd (POST_part1 w b) \<noteq> Return (Json200 r)"
    using POST_part1_Return [of w b "Json200 r"] by auto
  have p2: "snd (POST_coordinates w b l) \<noteq> Return (Json200 r)" for l
    using POST_coordinates_Return [of w b l "Json200 r"] by auto
  show ?thesis
  proof (cases "POST_part1 w b")
    case (Pair ev1 s1)
    show ?thesis
    proof (cases s1)
      case (Continue v)
      obtain location0 date0 a where v: "v = (location0, date0, a)" by (cases v) auto
      show ?thesis
      proof (cases "POST_default_date w date0")
        case (Inl e)
        with assms Pair Continue v show ?thesis by (simp add: POST_def)
      next
        case (Inr date1)
        show ?thesis
        proof (cases "POST_coordinates w b location0")
          case coords: (Pair ev2 s2)
          show ?thesis
          proof (cases s2)
            case c: (Continue ll)
            obtain la lo where ll: "ll = (la, lo)" by (cases ll) auto
            from assms Pair Continue v Inr coords c ll
            have "snd (POST_forecast w la lo date1 a) = Json200 r"
              by (simp add: POST_def case_prod_beta)
            then show ?thesis by blast
          next
            case (Return r')
            with assms Pair Continue v Inr coords p2 [of location0] show ?thesis
              by (simp add: POST_def)
          next
            case (Throw e)
            with assms Pair Continue v Inr coords show ?thesis by (simp add: POST_def)
          qed
        qed
      qed
    next
      case (Return r')
      with assms Pair p1 show ?thesis by (simp add: POST_def)
    next
      case (Throw e)
      with assms Pair show ?thesis by (simp add: POST_def)
    qed
  qed
qed

lemma POST_forecast_200:
  assumes "snd (POST_forecast w la lo d0 a) = Json200 r"
  shows "\<exists>near d forecast.
     r = POST_part4_5 near d a forecast (Some (snd (fetchHistoricalPOWERForDay w la lo d 10)))
     \<and> (forecast = None \<or> (\<exists>c data. upstream_openmeteo w la lo d = Status c (Some data)
            \<and> forecast = Some (forecast_sample data)))"
proof (cases "toISODate (Date_parse w d0)")
  case (Inl e)
  with assms show ?thesis by (simp add: POST_forecast_def Let_def)
next
  case (Inr d)
  define near where "near = (case Date_parse w d0 of None \<Rightarrow> False
      | Some t \<Rightarrow> isFuture t (now_ms w) \<and> within16d t (now_ms w))"
  define forecast where "forecast = (if near
      then fulfilled_value (settle (snd (fetchGFSviaOpenMeteo w la lo d))) else None)"
  have r: "r = POST_part4_5 near d a forecast (Some (snd (fetchHistoricalPOWERForDay w la lo d 10)))"
    using assms Inr
    by (auto simp add: POST_forecast_def Let_def POST_part3_def case_prod_beta near_def forecast_def
        split: if_splits)
  have "forecast = None \<or> (\<exists>c data. upstream_openmeteo w la lo d = Status c (Some data)
            \<and> forecast = Some (forecast_sample data))"
    by (auto simp add: forecast_def fetchGFSviaOpenMeteo_def fetch_json_def
        split: http.splits option.splits if_splits)
  with r show ?thesis by blast
qed


section \<open>Evaluation in the example worlds\<close>

lemmas regex_defs = regex_test_def regex_exec_def replace_all_def replace_first_def match_all_def
  capture_def seqs_def alts_def lit_def rstar_def rplus_def cmatch_def canon_def variants_def
  is_word_def is_space_def is_lower_def is_upper_def trim_def toLowerCase_def

lemma now_parts: "YearFromTime 1759276800000 = 2025" "MonthFromTime 1759276800000 = 9"
  "DateFromTime 1759276800000 = 1"
proof -
  show y: "YearFromTime 1759276800000 = 2025"
    by (simp add: YearFromTime_def YearFromDay_def Day_def msPerDay_def DayFromYear_def)
  show m: "MonthFromTime 1759276800000 = 9"
    by (simp add: MonthFromTime_def y DayWithinYear_def Day_def msPerDay_def DayFromYear_def
        leap_def DaysInYear_def)
  show "DateFromTime 1759276800000 = 1"
    by (simp add: DateFromTime_def m y DayWithinYear_def Day_def msPerDay_def DayFromYear_def
        leap_def DaysInYear_def monthStart_def)
qed

lemma target_parts: "YearFromTime 1760054400000 = 2025" "MonthFromTime 1760054400000 = 9"
  "DateFromTime 1760054400000 = 10"
proof -
  show y: "YearFromTime 1760054400000 = 2025"
    by (simp add: YearFromTime_def YearFromDay_def Day_def msPerDay_def DayFromYear_def)
  show m: "MonthFromTime 1760054400000 = 9"
    by (simp add: MonthFromTime_def y DayWithinYear_def Day_def msPerDay_def DayFromYear_def
        leap_def DaysInYear_def)
  show "DateFromTime 1760054400000 = 10"
    by (simp add: DateFromTime_def m y DayWithinYear_def Day_def msPerDay_def DayFromYear_def
        leap_def DaysInYear_def monthStart_def)
qed

lemma target_iso: "toISODate (Some 1760054400000) = Inr (js ''2025-10-10'')"
  by (simp add: toISODate_def toISOString_def ISOString_def target_parts pad_int_def padStart_def
      digits.simps js_def)

lemma utc_oct: "Date_UTC 2025 (Some 9) 10 = Some 1760054400000"
  "Date_UTC 2025 (Some 9) 1 = Some 1759276800000"
  by (simp_all add: Date_UTC_def MakeDay_def MakeDate_def TimeClip_def DayFromYear_def leap_def
      DaysInYear_def monthStart_def msPerDay_def)

lemma paris_power_keys: "power_keys paris_world (js ''2025-10-10'') 10 = paris_keys"
  by (simp add: paris_world_def power_keys_def target_years_def target_month_def target_day_def
      target_parts upt_rec String_num_def String_int_def padStart_def digits.simps paris_keys_def js_def)

lemma paris_fetchOne:
  "fetchOne_POWER paris_world la lo ymd =
     (if ymd = js ''20241010'' then Inr \<lparr> obs_p = Some 2, obs_t = Some 14, obs_w = Some 4 \<rparr>
      else if ymd = js ''20231010'' then Inr \<lparr> obs_p = Some 0, obs_t = Some 12, obs_w = Some 2 \<rparr>
      else Inl (Error (js ''POWER fetch failed ('' @ digits 503 @ js '')'')))"
  by (simp add: fetchOne_POWER_def paris_world_def fetch_json_def ok_def power_day_def)

lemma paris_power_values:
  "fulfilled (power_results paris_world la lo (js ''2025-10-10'') 10)
     = [\<lparr> obs_p = Some 2, obs_t = Some 14, obs_w = Some 4 \<rparr>,
        \<lparr> obs_p = Some 0, obs_t = Some 12, obs_w = Some 2 \<rparr>]"
  unfolding power_results_def paris_power_keys paris_keys_def
  by (simp add: paris_fetchOne js_def)

lemma paris_hist:
  "snd (fetchHistoricalPOWERForDay paris_world la lo (js ''2025-10-10'') 10)
     = \<lparr> histProb = Some 50, meanTemp = Some 13, meanWind = Some 3 \<rparr>"
  by (simp add: fetchHistoricalPOWERForDay_def paris_power_values aggregate_years_def Math_round_def)

lemma paris_forecast:
  "forecast_sample paris_hourly
     = \<lparr> tempC = Some 16, windSpeed = Some 6, cloud = Some 60, precipMm = Some 2, precipProb = Some 80 \<rparr>"
  by (simp add: forecast_sample_def paris_hourly_def Let_def endsWith_def js_def reduce_sum_def
      entry_at_def Math_round_def)

lemma paris_POST_forecast:
  "POST_forecast paris_world 49 2 (js ''2025-10-10'') (Some (js ''vacances''))
     = (paris_events, Json200 paris_prediction)"
proof -
  have d: "Date_parse paris_world (js ''2025-10-10'') = Some 1760054400000"
    by (simp add: paris_world_def)
  have near: "isFuture 1760054400000 (now_ms paris_world) \<and> within16d 1760054400000 (now_ms paris_world)"
    by (simp add: isFuture_def within16d_def daysAhead_def paris_world_def)
  have f: "fetchGFSviaOpenMeteo paris_world 49 2 (js ''2025-10-10'')
      = ([Fetch_OpenMeteo 49 2 (js ''2025-10-10'')], Inr (forecast_sample paris_hourly))"
    by (simp add: fetchGFSviaOpenMeteo_def fetch_json_def ok_def paris_world_def)
  have h: "fetchHistoricalPOWERForDay paris_world 49 2 (js ''2025-10-10'') 10
      = (map (Fetch_POWER 49 2) paris_keys, \<lparr> histProb = Some 50, meanTemp = Some 13, meanWind = Some 3 \<rparr>)"
    using paris_hist [of 49 2]
    by (simp add: fetchHistoricalPOWERForDay_def paris_power_keys)
  have r: "POST_part4_5 True (js ''2025-10-10'') (Some (js ''vacances''))
      (Some (forecast_sample paris_hourly))
      (Some \<lparr> histProb = Some 50, meanTemp = Some 13, meanWind = Some 3 \<rparr>) = paris_prediction"
    by (simp add: POST_part4_5_def paris_forecast rain_risk_def outdoor_vacances blended_risk_def
        chain_def resolved_wind_def resolved_temp_def labelWind_def paris_prediction_def Math_round_def)
  show ?thesis
    by (simp add: POST_forecast_def d target_iso near f h POST_part3_def r paris_events_def)
qed

lemma paris_direct: "POST paris_world direct_request = (paris_events, Json200 paris_prediction)"
proof -
  have p1: "POST_part1 paris_world direct_request
      = ([], Continue (None, Some (js ''2025-10-10''), Some (js ''vacances'')))"
    by (simp add: POST_part1_def direct_request_def)
  have dd: "POST_default_date paris_world (Some (js ''2025-10-10'')) = Inr (js ''2025-10-10'')"
    by (simp add: POST_default_date_def js_def)
  have c: "POST_coordinates paris_world direct_request None = ([], Continue (49, 2))"
    by (simp add: POST_coordinates_def direct_request_def truthy_def)
  show ?thesis
    by (simp add: POST_def p1 dd c paris_POST_forecast)
qed


section \<open>Well-formed responses\<close>

lemma labelWind_cases:
  "(labelWind ms = js ''fort'') = (\<exists>v. ms = Some v \<and> v > 10)"
  "(labelWind ms = modere) = (\<exists>v. ms = Some v \<and> 5 < v \<and> v \<le> 10)"
  "(labelWind ms = js ''faible'') = (\<exists>v. ms = Some v \<and> v \<le> 5)"
  "(labelWind ms = js ''inconnu'') = (ms = None)"
  by (cases ms; simp add: labelWind_def js_def modere_def; linarith)+

lemma labelWind_label: "labelWind ms \<in> {js ''faible'', modere, js ''fort'', js ''inconnu''}"
  by (cases ms) (simp_all add: labelWind_def)

text \<open>
  Claim C9. Every successful response is well-formed: when every precipitation
  probability the forecast service sends lies in [0,100], the rain risk is an integer in
  [0,100]; the wind label is one of faible, modere (spelled with acute accents), fort, inconnu, and it is the label
  of the resolved wind speed: fort above 10 m/s, modere (spelled with acute accents) above 5, faible otherwise, and
  inconnu exactly when the wind speed is null.
\<close>

theorem response_well_formed:
  "(snd (POST w b) = Json200 r \<and> percentages_in_range w \<longrightarrow>
      percentage (rainRisk r)
      \<and> wind r \<in> {js ''faible'', modere, js ''fort'', js ''inconnu''}
      \<and> (\<exists>near d a forecast hist. r = POST_part4_5 near d a forecast hist))
   \<and> wind (POST_part4_5 near d a forecast hist) = labelWind (resolved_wind forecast hist)
   \<and> (labelWind ms = js ''fort'') = (\<exists>v. ms = Some v \<and> v > 10)
   \<and> (labelWind ms = modere) = (\<exists>v. ms = Some v \<and> 5 < v \<and> v \<le> 10)
   \<and> (labelWind ms = js ''faible'') = (\<exists>v. ms = Some v \<and> v \<le> 5)
   \<and> (labelWind ms = js ''inconnu'') = (ms = None)"
proof -
  have main: "percentage (rainRisk r)
      \<and> wind r \<in> {js ''faible'', modere, js ''fort'', js ''inconnu''}
      \<and> (\<exists>near d a forecast hist. r = POST_part4_5 near d a forecast hist)"
    if ok: "snd (POST w b) = Json200 r" and range: "percentages_in_range w"
  proof -
    from ok obtain la lo d0 a where "snd (POST_forecast w la lo d0 a) = Json200 r"
      using POST_200 by blast
    then obtain near d forecast where
      r: "r = POST_part4_5 near d a forecast (Some (snd (fetchHistoricalPOWERForDay w la lo d 10)))"
      and f: "forecast = None \<or> (\<exists>c data. upstream_openmeteo w la lo d = Status c (Some data)
            \<and> forecast = Some (forecast_sample data))"
      using POST_forecast_200 by blast
    have fp: "percentage x" if "chain forecast precipProb = Some x" for x
    proof (cases forecast)
      case None
      with that show ?thesis by (simp add: chain_def)
    next
      case (Some fc)
      with f obtain c data where up: "upstream_openmeteo w la lo d = Status c (Some data)"
        and fc: "fc = forecast_sample data" by auto
      from that Some fc have "precipProb (forecast_sample data) = Some x" by (simp add: chain_def)
      moreover have "0 \<le> v \<and> v \<le> 100"
        if "precipitation_probability data = Some xs" "Some v \<in> set xs" for xs v
        using range up that unfolding percentages_in_range_def by blast
      ultimately show ?thesis using forecast_sample_percentage [of data x] by blast
    qed
    have hp: "percentage x"
      if "chain (Some (snd (fetchHistoricalPOWERForDay w la lo d 10))) histProb = Some x" for x
      using that by (simp add: chain_def fetchHistoricalPOWERForDay_def aggregate_years_percentage)
    have "percentage (rain_risk forecast (Some (snd (fetchHistoricalPOWERForDay w la lo d 10))) a)"
      using fp hp by (rule rain_risk_percentage)
    then have "percentage (rainRisk r)" by (simp add: r POST_part4_5_def)
    moreover have "wind r \<in> {js ''faible'', modere, js ''fort'', js ''inconnu''}"
      unfolding r POST_part4_5_def using labelWind_label by simp
    ultimately show ?thesis using r by blast
  qed
  have "wind (POST_part4_5 near d a forecast hist) = labelWind (resolved_wind forecast hist)"
    by (simp add: POST_part4_5_def)
  with main labelWind_cases [of ms] show ?thesis by blast
qed

lemma paris_percentages: "percentages_in_range paris_world"
  by (auto simp add: percentages_in_range_def paris_world_def paris_hourly_def)

theorem response_well_formed_witness:
  "snd (POST paris_world direct_request) = Json200 paris_prediction
   \<and> percentages_in_range paris_world
   \<and> percentage (rainRisk paris_prediction)
   \<and> wind paris_prediction \<in> {js ''faible'', modere, js ''fort'', js ''inconnu''}"
proof -
  have "snd (POST paris_world direct_request) = Json200 paris_prediction"
    by (simp add: paris_direct)
  then show ?thesis
    using paris_percentages response_well_formed [of paris_world direct_request paris_prediction]
    by blast
qed

section \<open>Source dispatch\<close>










section \<open>Strict mode\<close>

lemma sanitize_Paris: "sanitizeLocationString (Some (js ''Paris'')) = Some (js ''Paris'')"
  by (simp add: sanitizeLocationString_def js_def regex_defs Let_def re_date_fragment_def
      re_after_a_def re_leading_activity_def re_spaces_def re_trailing_punct_def fr_letters_def
      name_chars_def)

lemma strict_parse:
  "parseWithOpenRouter strict_world q =
     ([Fetch_OpenRouter q], Inr \<lparr> location = Some (js ''Paris''), dateISO = None, activity = None \<rparr>)"
proof -
  have "parse_content strict_world content_location
      = \<lparr> location = Some (js ''Paris''), dateISO = None, activity = None \<rparr>"
    using sanitize_Paris
    by (simp add: parse_content_def strict_world_def string_prop_def normalizeDateISO_def js_def)
  then show ?thesis
    by (simp add: parseWithOpenRouter_def strict_world_def fetch_json_def ok_def js_def)
qed

text \<open>
  Claim C5. For every request with a non-empty query (one that has a character other
  than white space, \<^verbatim>\<open>query.trim().length > 0\<close>), when strict mode is enabled and the
  location or the date is still absent after the AI parser (the date is absent when
  neither the AI parser nor the request body gives one), the request fails with status
  422 and the details of which of the two were obtained; the only call made is the one of
  the AI parser, if any: no heuristic fallback, no geocoding, no weather request.
\<close>

theorem strict_mode_halts:
  assumes "b_query b = Some q" and "trim q \<noteq> []"
    and "env_PARSING_STRICT w = Some (js ''true'')"
    and "parsed = (case snd (parseWithOpenRouter w q) of Inl e \<Rightarrow> empty_intent | Inr i \<Rightarrow> i)"
    and "\<not> truthy (location parsed) \<or> \<not> truthy (coalesce (dateISO parsed) (b_date b))"
  shows "POST w b = (fst (parseWithOpenRouter w q),
            Json422 incomplete_message (truthy (location parsed))
              (truthy (coalesce (dateISO parsed) (b_date b)))
              (coalesce (activity parsed) (b_activity b)))
     \<and> status (snd (POST w b)) = 422
     \<and> (fst (POST w b) = [] \<or> fst (POST w b) = [Fetch_OpenRouter q])"
proof -
  from assms(2) have q: "q \<noteq> []" by (auto simp add: trim_def)
  have c: "coalesce x None = x" for x :: "jsstring option" by (cases x) simp_all
  have p1: "POST_part1 w b = (fst (parseWithOpenRouter w q),
      Return (Json422 incomplete_message (truthy (location parsed))
              (truthy (coalesce (dateISO parsed) (b_date b)))
              (coalesce (activity parsed) (b_activity b))))"
    using assms q by (auto simp add: POST_part1_def Let_def case_prod_beta c)
  have ev: "fst (parseWithOpenRouter w q) = [] \<or> fst (parseWithOpenRouter w q) = [Fetch_OpenRouter q]"
    by (simp add: parseWithOpenRouter_def split: option.splits)
  from p1 ev show ?thesis by (auto simp add: POST_def)
qed

theorem strict_mode_halts_witness:
  "b_query query_request = Some paris_query \<and> trim paris_query \<noteq> []
   \<and> env_PARSING_STRICT strict_world = Some (js ''true'')
   \<and> POST strict_world query_request = ([Fetch_OpenRouter paris_query],
        Json422 incomplete_message True False None)"
proof -
  have 1: "b_query query_request = Some paris_query" by (simp add: query_request_def)
  have 2: "trim paris_query \<noteq> []" by (simp add: paris_query_def trim_def js_def is_space_def)
  have 3: "env_PARSING_STRICT strict_world = Some (js ''true'')" by (simp add: strict_world_def)
  define parsed where "parsed = (case snd (parseWithOpenRouter strict_world paris_query) of
      Inl e \<Rightarrow> empty_intent | Inr i \<Rightarrow> i)"
  have 4: "parsed = \<lparr> location = Some (js ''Paris''), dateISO = None, activity = None \<rparr>"
    by (simp add: parsed_def strict_parse)
  have 5: "\<not> truthy (location parsed) \<or> \<not> truthy (coalesce (dateISO parsed) (b_date query_request))"
    by (simp add: 4 truthy_def query_request_def)
  have "POST strict_world query_request = ([Fetch_OpenRouter paris_query],
        Json422 incomplete_message True False None)"
    using strict_mode_halts [OF 1 2 3 parsed_def 5]
    by (simp add: 4 strict_parse truthy_def query_request_def js_def)
  with 1 2 3 show ?thesis by blast
qed

section \<open>Heuristic dates\<close>

lemma new_year_parts: "YearFromTime 1735689600000 = 2025" "MonthFromTime 1735689600000 = 0"
  "DateFromTime 1735689600000 = 1" "toISODate (Some 1735689600000) = Inr (js ''2025-01-01'')"
proof -
  show y: "YearFromTime 1735689600000 = 2025"
    by (simp add: YearFromTime_def YearFromDay_def Day_def msPerDay_def DayFromYear_def)
  show m: "MonthFromTime 1735689600000 = 0"
    by (simp add: MonthFromTime_def y DayWithinYear_def Day_def msPerDay_def DayFromYear_def
        leap_def DaysInYear_def)
  show d: "DateFromTime 1735689600000 = 1"
    by (simp add: DateFromTime_def m y DayWithinYear_def Day_def msPerDay_def DayFromYear_def
        leap_def DaysInYear_def monthStart_def)
  show "toISODate (Some 1735689600000) = Inr (js ''2025-01-01'')"
    by (simp add: toISODate_def toISOString_def ISOString_def y m d pad_int_def padStart_def
        digits.simps js_def)
qed

lemma june_parts: "YearFromTime 1748736000000 = 2025" "MonthFromTime 1748736000000 = 5"
  "DateFromTime 1748736000000 = 1" "toISODate (Some 1748736000000) = Inr (js ''2025-06-01'')"
proof -
  show y: "YearFromTime 1748736000000 = 2025"
    by (simp add: YearFromTime_def YearFromDay_def Day_def msPerDay_def DayFromYear_def)
  show m: "MonthFromTime 1748736000000 = 5"
    by (simp add: MonthFromTime_def y DayWithinYear_def Day_def msPerDay_def DayFromYear_def
        leap_def DaysInYear_def)
  show d: "DateFromTime 1748736000000 = 1"
    by (simp add: DateFromTime_def m y DayWithinYear_def Day_def msPerDay_def DayFromYear_def
        leap_def DaysInYear_def monthStart_def)
  show "toISODate (Some 1748736000000) = Inr (js ''2025-06-01'')"
    by (simp add: toISODate_def toISOString_def ISOString_def y m d pad_int_def padStart_def
        digits.simps js_def)
qed

lemma march_2025_parts: "YearFromTime 1741132800000 = 2025" "MonthFromTime 1741132800000 = 2"
  "DateFromTime 1741132800000 = 5" "toISODate (Some 1741132800000) = Inr (js ''2025-03-05'')"
proof -
  show y: "YearFromTime 1741132800000 = 2025"
    by (simp add: YearFromTime_def YearFromDay_def Day_def msPerDay_def DayFromYear_def)
  show m: "MonthFromTime 1741132800000 = 2"
    by (simp add: MonthFromTime_def y DayWithinYear_def Day_def msPerDay_def DayFromYear_def
        leap_def DaysInYear_def)
  show d: "DateFromTime 1741132800000 = 5"
    by (simp add: DateFromTime_def m y DayWithinYear_def Day_def msPerDay_def DayFromYear_def
        leap_def DaysInYear_def monthStart_def)
  show "toISODate (Some 1741132800000) = Inr (js ''2025-03-05'')"
    by (simp add: toISODate_def toISOString_def ISOString_def y m d pad_int_def padStart_def
        digits.simps js_def)
qed

lemma march_2026_parts: "YearFromTime 1772668800000 = 2026" "MonthFromTime 1772668800000 = 2"
  "DateFromTime 1772668800000 = 5" "toISODate (Some 1772668800000) = Inr (js ''2026-03-05'')"
proof -
  show y: "YearFromTime 1772668800000 = 2026"
    by (simp add: YearFromTime_def YearFromDay_def Day_def msPerDay_def DayFromYear_def)
  show m: "MonthFromTime 1772668800000 = 2"
    by (simp add: MonthFromTime_def y DayWithinYear_def Day_def msPerDay_def DayFromYear_def
        leap_def DaysInYear_def)
  show d: "DateFromTime 1772668800000 = 5"
    by (simp add: DateFromTime_def m y DayWithinYear_def Day_def msPerDay_def DayFromYear_def
        leap_def DaysInYear_def monthStart_def)
  show "toISODate (Some 1772668800000) = Inr (js ''2026-03-05'')"
    by (simp add: toISODate_def toISOString_def ISOString_def y m d pad_int_def padStart_def
        digits.simps js_def)
qed

lemma march_2020_parts: "YearFromTime 1583366400000 = 2020" "MonthFromTime 1583366400000 = 2"
  "DateFromTime 1583366400000 = 5" "toISODate (Some 1583366400000) = Inr (js ''2020-03-05'')"
proof -
  show y: "YearFromTime 1583366400000 = 2020"
    by (simp add: YearFromTime_def YearFromDay_def Day_def msPerDay_def DayFromYear_def)
  show m: "MonthFromTime 1583366400000 = 2"
    by (simp add: MonthFromTime_def y DayWithinYear_def Day_def msPerDay_def DayFromYear_def
        leap_def DaysInYear_def)
  show d: "DateFromTime 1583366400000 = 5"
    by (simp add: DateFromTime_def m y DayWithinYear_def Day_def msPerDay_def DayFromYear_def
        leap_def DaysInYear_def monthStart_def)
  show "toISODate (Some 1583366400000) = Inr (js ''2020-03-05'')"
    by (simp add: toISODate_def toISOString_def ISOString_def y m d pad_int_def padStart_def
        digits.simps js_def)
qed

lemma utc_examples: "Date_UTC 2025 (Some 2) 5 = Some 1741132800000" "Date_UTC 2020 (Some 2) 5 = Some 1583366400000" "Date_UTC 2025 (Some 0) 1 = Some 1735689600000" "Date_UTC 2025 (Some 5) 1 = Some 1748736000000"
  by (simp_all add: Date_UTC_def MakeDay_def MakeDate_def TimeClip_def DayFromYear_def leap_def
      DaysInYear_def monthStart_def msPerDay_def)

lemma roll_march: "setUTCFullYear (Some 1741132800000) 2026 = Some 1772668800000"
  by (simp add: setUTCFullYear_def march_2025_parts MakeDay_def MakeDate_def TimeClip_def
      DayFromYear_def leap_def DaysInYear_def monthStart_def msPerDay_def TimeWithinDay_def)

lemmas fallback_defs = parseFrenchFallback_def fallback_date_def months_def month_table_def
  parseInt_def re_activity_def re_location_def re_date_def fr_letters_def name_chars_def
  exterieur_accent_def Let_def

lemma le_5_mars_january:
  "parseFrenchFallback 1735689600000 (js ''le 5 mars'')
     = Inr \<lparr> location = None, dateISO = Some (js ''2025-03-05''), activity = None \<rparr>"
  by (simp add: fallback_defs regex_defs js_def new_year_parts [unfolded js_def]
      march_2025_parts [unfolded js_def] utc_examples)

lemma le_5_mars_june:
  "parseFrenchFallback 1748736000000 (js ''le 5 mars'')
     = Inr \<lparr> location = None, dateISO = Some (js ''2026-03-05''), activity = None \<rparr>"
  by (simp add: fallback_defs regex_defs js_def june_parts [unfolded js_def]
      march_2025_parts [unfolded js_def] march_2026_parts [unfolded js_def] utc_examples roll_march)

lemma le_5_mars_2020:
  "parseFrenchFallback 1748736000000 (js ''le 5 mars 2020'')
     = Inr \<lparr> location = None, dateISO = Some (js ''2020-03-05''), activity = None \<rparr>"
  by (simp add: fallback_defs regex_defs js_def june_parts [unfolded js_def]
      march_2020_parts [unfolded js_def] utc_examples)

lemma fallback_date_explicit_year:
  assumes "months (toLowerCase g2) = MonthNumber m" and "y \<noteq> []" and "parseInt y > 1900"
  shows "fallback_date now g1 g2 (Some y) =
     (case toISODate (Date_UTC (parseInt y) (Some (m - 1)) (parseInt g1)) of
        Inl e \<Rightarrow> Inl e | Inr d \<Rightarrow> Inr (Some d))"
  using assms
  by (cases "Date_UTC (parseInt y) (Some (m - 1)) (parseInt g1)")
     (simp_all add: fallback_date_def Let_def)

text \<open>
  Claim C7 holds on its three examples (\<open>le_5_mars_january\<close>, \<open>le_5_mars_june\<close>,
  \<open>le_5_mars_2020\<close>) and for every explicit year above 1900
  (\<open>fallback_date_explicit_year\<close>: the date does not depend on today). It fails for the
  explicit year 0000: \<^verbatim>\<open>parseInt\<close> gives 0, which is falsy in \<^verbatim>\<open>!yearGiven\<close>, so the
  year counts as not given and the date is rolled forward, against the comment of the
  code ("increment the year only if no explicit year was given"). With today 2025-06-01,
  "le 5 mars 0000" yields 2026-03-05, and with today 2025-01-01 it yields 2025-03-05.
\<close>

theorem year_0000_rolls_over:
  "parseFrenchFallback 1748736000000 (js ''le 5 mars 0000'')
     = Inr \<lparr> location = None, dateISO = Some (js ''2026-03-05''), activity = None \<rparr>
   \<and> parseFrenchFallback 1735689600000 (js ''le 5 mars 0000'')
     = Inr \<lparr> location = None, dateISO = Some (js ''2025-03-05''), activity = None \<rparr>"
  by (simp add: fallback_defs regex_defs js_def june_parts [unfolded js_def] new_year_parts [unfolded js_def]
      march_2025_parts [unfolded js_def] march_2026_parts [unfolded js_def] utc_examples roll_march)


section \<open>A date that cannot be parsed\<close>




section \<open>Forecast sample\<close>

lemma forecast_sample_precipMm:
  "precipMm (forecast_sample data) = Some (reduce_sum (nullish (precipitation data) []))"
  by (simp add: forecast_sample_def Let_def)

lemma forecast_sample_fields:
  "tempC (forecast_sample data) =
     entry_at (nullish (temperature_2m data) [])
       (case findIndex (\<lambda>t. endsWith t (js ''T12:00'')) (nullish (time data) []) of
          Some i \<Rightarrow> i | None \<Rightarrow> length (nullish (time data) []) div 2)"
  "windSpeed (forecast_sample data) =
     entry_at (nullish (wind_speed_10m data) [])
       (case findIndex (\<lambda>t. endsWith t (js ''T12:00'')) (nullish (time data) []) of
          Some i \<Rightarrow> i | None \<Rightarrow> length (nullish (time data) []) div 2)"
  "temperature_2m data = None \<Longrightarrow> tempC (forecast_sample data) = None"
  "wind_speed_10m data = None \<Longrightarrow> windSpeed (forecast_sample data) = None"
  "cloud_cover data = None \<Longrightarrow> cloud (forecast_sample data) = None"
  "precipitation_probability data = None \<Longrightarrow> precipProb (forecast_sample data) = None"
  "cloud_cover data = Some (c # cs) \<Longrightarrow> cloud (forecast_sample data) =
     Some (real_of_int (Math_round (sum_list (map (\<lambda>x. nullish x 0) (c # cs)) / real (length (c # cs)))))"
  "precipitation_probability data = Some (p # ps) \<Longrightarrow> precipProb (forecast_sample data) =
     Some (real_of_int (Math_round (sum_list (map (\<lambda>x. nullish x 0) (p # ps)) / real (length (p # ps)))))"
  "precipitation data = Some xs \<Longrightarrow>
     precipMm (forecast_sample data) = Some (sum_list (map (\<lambda>x. nullish x 0) xs))"
  by (simp_all add: forecast_sample_def Let_def entry_at_def reduce_sum_def foldl_add_sum_list)

lemma fetchGFS_failure:
  "upstream_openmeteo w la lo d = Status code body \<Longrightarrow> \<not> ok code \<Longrightarrow>
     snd (fetchGFSviaOpenMeteo w la lo d) = Inl (Error (js ''Open-Meteo forecast failed''))"
  by (simp add: fetchGFSviaOpenMeteo_def fetch_json_def)

text \<open>
  Claim C6 holds for the selection of the noon record, the day means (rounded to an
  integer), the day sum and the failure on a non-success status (\<open>forecast_sample_fields\<close>,
  \<open>fetchGFS_failure\<close>), and a missing series gives a null temperature, wind, cloud cover
  and precipitation probability. It fails for the precipitation sum: the sum of a missing
  series is 0, and \<^verbatim>\<open>precipDaySum ?? null\<close> never yields null
  (\<open>forecast_sample_precipMm\<close>). A successful answer without the series
  \<^verbatim>\<open>precipitation\<close> and \<^verbatim>\<open>precipitation_probability\<close> gives the sample with
  \<open>precipMm = 0\<close>.
\<close>

theorem missing_precipitation_is_zero:
  "forecast_sample sparse_hourly
     = \<lparr> tempC = Some 16, windSpeed = Some 6, cloud = Some 60, precipMm = Some 0, precipProb = None \<rparr>
   \<and> fetchGFSviaOpenMeteo (paris_world \<lparr> upstream_openmeteo := (\<lambda>la lo d. Status 200 (Some sparse_hourly)) \<rparr>)
        49 2 (js ''2025-10-10'')
      = ([Fetch_OpenMeteo 49 2 (js ''2025-10-10'')],
         Inr \<lparr> tempC = Some 16, windSpeed = Some 6, cloud = Some 60, precipMm = Some 0, precipProb = None \<rparr>)"
proof -
  have "forecast_sample sparse_hourly
     = \<lparr> tempC = Some 16, windSpeed = Some 6, cloud = Some 60, precipMm = Some 0, precipProb = None \<rparr>"
    by (simp add: forecast_sample_def sparse_hourly_def paris_hourly_def Let_def endsWith_def js_def
        reduce_sum_def entry_at_def Math_round_def)
  then show ?thesis
    by (simp add: fetchGFSviaOpenMeteo_def fetch_json_def ok_def)
qed

section \<open>Heuristic fallback\<close>

lemma normalize_iso: "normalizeDateISO P (Some (js ''2025-10-10'')) = Some (js ''2025-10-10'')"
  by (simp add: normalizeDateISO_def js_def regex_defs re_iso_date_def)

lemma helpful_parse:
  "parseWithOpenRouter helpful_world q =
     ([Fetch_OpenRouter q],
      Inr \<lparr> location = Some (js ''Paris''), dateISO = Some (js ''2025-10-10''), activity = None \<rparr>)"
proof -
  have "parse_content helpful_world content_location_date
      = \<lparr> location = Some (js ''Paris''), dateISO = Some (js ''2025-10-10''), activity = None \<rparr>"
    using sanitize_Paris normalize_iso [of "Date_parse helpful_world"]
    by (simp add: parse_content_def helpful_world_def string_prop_def js_def)
  then show ?thesis
    by (simp add: parseWithOpenRouter_def helpful_world_def fetch_json_def ok_def js_def)
qed

lemma paris_fallback:
  "parseFrenchFallback 1759276800000 paris_query
     = Inr \<lparr> location = Some (js ''Paris''), dateISO = Some (js ''2025-10-10''),
            activity = Some (js ''vacances'') \<rparr>"
  by (simp add: fallback_defs regex_defs js_def paris_query_def now_parts target_parts
      target_iso [unfolded js_def] utc_oct)

text \<open>
  Claim C8, as stated, fails: when the AI parser gives the location and the date and no
  activity, the heuristic parser is not invoked, and the activity stays absent although
  the heuristic parser finds one in the query ("vacances").
\<close>

theorem activity_alone_not_filled_counterexample:
  "POST_part1 helpful_world query_request =
     ([Fetch_OpenRouter paris_query], Continue (Some (js ''Paris''), Some (js ''2025-10-10''), None))
   \<and> parseFrenchFallback (now_ms helpful_world) paris_query
     = Inr \<lparr> location = Some (js ''Paris''), dateISO = Some (js ''2025-10-10''),
            activity = Some (js ''vacances'') \<rparr>"
proof -
  have "POST_part1 helpful_world query_request =
     ([Fetch_OpenRouter paris_query], Continue (Some (js ''Paris''), Some (js ''2025-10-10''), None))"
  proof -
    have s: "env_PARSING_STRICT helpful_world = None"
      by (simp add: helpful_world_def paris_world_def)
    have q: "paris_query \<noteq> []" "trim paris_query \<noteq> []"
      by (simp_all add: paris_query_def trim_def js_def is_space_def)
    show ?thesis
      by (simp add: POST_part1_def query_request_def helpful_parse s q truthy_def js_def)
  qed
  moreover have "now_ms helpful_world = 1759276800000"
    by (simp add: helpful_world_def paris_world_def)
  ultimately show ?thesis using paris_fallback by simp
qed

text \<open>
  Claim C8, amended. For every request with a non-empty query (one that has a character
  other than white space) and strict mode off: whatever the AI parser call does (a
  rejection counts as the empty intent, and content that is not JSON gives the empty
  intent), part 1 never returns a response, and throws only what the heuristic parser
  throws. The heuristic parser is invoked exactly when the location or the date is still
  absent after the AI parser; it then fills each of location, date and activity that is
  absent and leaves every present value as it is. When location and date are both
  present it is not invoked, and an absent activity stays absent.
\<close>

theorem heuristic_fallback:
  assumes "b_query b = Some q" and "trim q \<noteq> []"
    and "env_PARSING_STRICT w \<noteq> Some (js ''true'')"
    and "parsed = (case snd (parseWithOpenRouter w q) of Inl e \<Rightarrow> empty_intent | Inr i \<Rightarrow> i)"
    and "loc1 = location parsed"
    and "date1 = coalesce (dateISO parsed) (b_date b)"
    and "act1 = coalesce (activity parsed) (b_activity b)"
  shows "(truthy loc1 \<and> truthy date1 \<longrightarrow>
            POST_part1 w b = (fst (parseWithOpenRouter w q), Continue (loc1, date1, act1)))
     \<and> (\<not> truthy loc1 \<or> \<not> truthy date1 \<longrightarrow>
            fst (POST_part1 w b) = fst (parseWithOpenRouter w q) @ [Call_parseFrenchFallback q]
            \<and> (\<forall>fb. parseFrenchFallback (now_ms w) q = Inr fb \<longrightarrow>
                  snd (POST_part1 w b) =
                    Continue (if truthy loc1 then loc1 else location fb,
                              if truthy date1 then date1 else dateISO fb,
                              if truthy act1 then act1 else activity fb))
            \<and> (\<forall>e. parseFrenchFallback (now_ms w) q = Inl e \<longrightarrow> snd (POST_part1 w b) = Throw e))
     \<and> (\<forall>r. snd (POST_part1 w b) \<noteq> Return r)
     \<and> (\<forall>e. snd (POST_part1 w b) = Throw e \<longrightarrow> parseFrenchFallback (now_ms w) q = Inl e)
     \<and> (\<forall>c. JSON_parse w c = None \<longrightarrow> parse_content w c = empty_intent)"
proof -
  from assms(2) have q: "q \<noteq> []" by (auto simp add: trim_def)
  have c: "coalesce x None = x" for x :: "jsstring option" by (cases x) simp_all
  have strict: "(env_PARSING_STRICT w = Some (js ''true'')) = False" using assms(3) by simp
  have both: "POST_part1 w b = (fst (parseWithOpenRouter w q), Continue (loc1, date1, act1))"
    if "truthy loc1 \<and> truthy date1"
    using that assms q
    by (simp add: POST_part1_def Let_def case_prod_beta c strict)
  have miss: "POST_part1 w b =
      (fst (parseWithOpenRouter w q) @ [Call_parseFrenchFallback q],
       (case parseFrenchFallback (now_ms w) q of
          Inl e \<Rightarrow> Throw e
        | Inr fb \<Rightarrow> Continue (if truthy loc1 then loc1 else location fb,
                              if truthy date1 then date1 else dateISO fb,
                              if truthy act1 then act1 else activity fb)))"
    if "\<not> truthy loc1 \<or> \<not> truthy date1"
  proof -
    from that have t: "(truthy (location parsed) \<and> truthy (coalesce (dateISO parsed) (b_date b))) = False"
      using assms(5,6) by auto
    from that have t': "truthy (location parsed) \<longrightarrow> \<not> truthy (coalesce (dateISO parsed) (b_date b))"
      using assms(5,6) by auto
    show ?thesis
      using assms(1,4,5,6,7) q assms(2) t'
      by (cases "parseFrenchFallback (now_ms w) q")
         (auto simp add: POST_part1_def Let_def case_prod_beta c strict or_else_def)
  qed
  have json: "JSON_parse w c = None \<longrightarrow> parse_content w c = empty_intent" for c
    by (simp add: parse_content_def)
  show ?thesis
  proof (cases "truthy loc1 \<and> truthy date1")
    case True
    with both json show ?thesis by auto
  next
    case False
    then have f: "\<not> truthy loc1 \<or> \<not> truthy date1" by blast
    show ?thesis
      using miss [OF f] f json
      by (cases "parseFrenchFallback (now_ms w) q") auto
  qed
qed

theorem heuristic_fallback_witness:
  "b_query query_request = Some paris_query \<and> trim paris_query \<noteq> []
   \<and> env_PARSING_STRICT paris_world \<noteq> Some (js ''true'')
   \<and> parseWithOpenRouter paris_world paris_query = ([], Inr empty_intent)
   \<and> parseFrenchFallback (now_ms paris_world) paris_query
       = Inr \<lparr> location = Some (js ''Paris''), dateISO = Some (js ''2025-10-10''),
              activity = Some (js ''vacances'') \<rparr>
   \<and> fst (POST_part1 paris_world query_request) = [Call_parseFrenchFallback paris_query]
   \<and> snd (POST_part1 paris_world query_request)
       = Continue (Some (js ''Paris''), Some (js ''2025-10-10''), Some (js ''vacances''))"
proof -
  have 1: "b_query query_request = Some paris_query" by (simp add: query_request_def)
  have 2: "trim paris_query \<noteq> []" by (simp add: paris_query_def trim_def js_def is_space_def)
  have 3: "env_PARSING_STRICT paris_world \<noteq> Some (js ''true'')" by (simp add: paris_world_def)
  have 4: "parseWithOpenRouter paris_world paris_query = ([], Inr empty_intent)"
    by (simp add: parseWithOpenRouter_def paris_world_def)
  have 5: "parseFrenchFallback (now_ms paris_world) paris_query
       = Inr \<lparr> location = Some (js ''Paris''), dateISO = Some (js ''2025-10-10''),
              activity = Some (js ''vacances'') \<rparr>"
    using paris_fallback by (simp add: paris_world_def)
  have 6: "empty_intent = (case snd (parseWithOpenRouter paris_world paris_query) of
      Inl e \<Rightarrow> empty_intent | Inr i \<Rightarrow> i)"
    by (simp add: 4)
  have 7: "\<not> truthy (location empty_intent)
      \<or> \<not> truthy (coalesce (dateISO empty_intent) (b_date query_request))"
    by (simp add: empty_intent_def truthy_def)
  have "fst (POST_part1 paris_world query_request) = [Call_parseFrenchFallback paris_query]
   \<and> snd (POST_part1 paris_world query_request)
       = Continue (Some (js ''Paris''), Some (js ''2025-10-10''), Some (js ''vacances''))"
    using heuristic_fallback [OF 1 2 3 6 refl refl refl] 7 5
    by (simp add: 4 empty_intent_def truthy_def query_request_def)
  with 1 2 3 4 5 show ?thesis by blast
qed

section \<open>Coordinate resolution\<close>

lemma lutece_fallback:
  "parseFrenchFallback 1759276800000 lutece_query
     = Inr \<lparr> location = Some (js ''Lutece''), dateISO = Some (js ''2025-10-10''),
            activity = Some (js ''vacances'') \<rparr>"
  by (simp add: fallback_defs regex_defs js_def lutece_query_def now_parts target_parts
      target_iso [unfolded js_def] utc_oct)

lemma lutece_candidate: "extractCandidateLocation lutece_query = Some (js ''Vacances a Lutece le'')"
  by (simp add: extractCandidateLocation_def js_def lutece_query_def regex_defs re_capitalized_def
      name_chars_def Let_def candidate_months_def candidate_stops_def re_year20_def)

lemmas clean_defs = cleaned_query_def re_clean_date_def re_clean_activity_def re_clean_a_def
  re_clean_year_def re_clean_number_def fr_letters_def exterieur_accent_def

lemma lutece_cleaned: "cleaned_query lutece_query = js ''a Lutece''"
  by (simp add: clean_defs js_def lutece_query_def regex_defs)

lemma nice_candidate: "extractCandidateLocation nice_query = Some (js ''Vacances Nice'')"
  by (simp add: extractCandidateLocation_def js_def nice_query_def regex_defs re_capitalized_def
      name_chars_def Let_def candidate_months_def candidate_stops_def re_year20_def)

lemma nice_cleaned: "cleaned_query nice_query = js ''Nice''"
  by (simp add: clean_defs js_def nice_query_def regex_defs)

lemma geocode_lutece:
  "geocodeNominatim paris_world (js ''Lutece'')
     = ([Fetch_Nominatim (js ''Lutece'')], Inl (Error (js ''Lieu introuvable'')))"
  by (simp add: geocodeNominatim_def paris_world_def fetch_json_def ok_def js_def)

lemma geocode_nice:
  "geocodeNominatim nice_world (js ''Vacances Nice'') = ([Fetch_Nominatim (js ''Vacances Nice'')], Inr (1, 1))"
  "geocodeNominatim nice_world (js ''Nice'') = ([Fetch_Nominatim (js ''Nice'')], Inr (44, 7))"
  by (simp_all add: geocodeNominatim_def nice_world_def fetch_json_def ok_def js_def)

lemma coordinates_location_failure:
  assumes "b_lat b = None \<or> b_lon b = None" and "location0 = Some l" and "l \<noteq> []"
    and "geocodeNominatim w l = (ev, Inl e)"
  shows "POST_coordinates w b location0 = (ev, Throw e)"
  using assms by (auto simp add: POST_coordinates_def truthy_def)

text \<open>
  Claim C2 fails on the code in two ways, both against the fallbacks the code itself
  has. The geocoding of the resolved location is the one attempt outside a \<^verbatim>\<open>try\<close>: its
  failure is thrown to the outer catch (\<open>coordinates_location_failure\<close>), the two other
  attempts are not made and the answer is 500, not 400. For the query
  "Vacances a Lutece le 10 octobre 2025" the heuristic parser resolves "Lutece", the
  geocoder finds nothing, and the response is the 500 "Lieu introuvable", although a
  candidate and a stripped query exist. And the attempt on the stripped query is made
  even when the attempt on the candidate succeeded, and replaces its coordinates: for
  "Vacances Nice" the coordinates of "Nice" replace those of "Vacances Nice".
\<close>

theorem geocoding_failure_not_swallowed:
  "POST paris_world lutece_request
     = ([Call_parseFrenchFallback lutece_query, Fetch_Nominatim (js ''Lutece'')],
        Json500 (js ''Lieu introuvable''))
   \<and> extractCandidateLocation lutece_query = Some (js ''Vacances a Lutece le'')
   \<and> cleaned_query lutece_query = js ''a Lutece''
   \<and> POST_coordinates nice_world nice_request None
     = ([Fetch_Nominatim (js ''Vacances Nice''), Fetch_Nominatim (js ''Nice'')], Continue (44, 7))"
proof -
  have q: "lutece_query \<noteq> []" "trim lutece_query \<noteq> []"
    by (simp_all add: lutece_query_def trim_def js_def is_space_def)
  have w: "env_PARSING_STRICT paris_world = None" "now_ms paris_world = 1759276800000"
    "parseWithOpenRouter paris_world lutece_query = ([], Inr empty_intent)"
    by (simp_all add: paris_world_def parseWithOpenRouter_def)
  have p1: "POST_part1 paris_world lutece_request
      = ([Call_parseFrenchFallback lutece_query],
         Continue (Some (js ''Lutece''), Some (js ''2025-10-10''), Some (js ''vacances'')))"
    by (simp add: POST_part1_def lutece_request_def q w lutece_fallback empty_intent_def truthy_def
        or_else_def)
  have dd: "POST_default_date paris_world (Some (js ''2025-10-10'')) = Inr (js ''2025-10-10'')"
    by (simp add: POST_default_date_def js_def)
  have c: "POST_coordinates paris_world lutece_request (Some (js ''Lutece''))
      = ([Fetch_Nominatim (js ''Lutece'')], Throw (Error (js ''Lieu introuvable'')))"
    using geocode_lutece
    by (simp add: POST_coordinates_def lutece_request_def truthy_def js_def)
  have post: "POST paris_world lutece_request
     = ([Call_parseFrenchFallback lutece_query, Fetch_Nominatim (js ''Lutece'')],
        Json500 (js ''Lieu introuvable''))"
    by (simp add: POST_def p1 dd c)
  have n: "nice_query \<noteq> []" by (simp add: nice_query_def js_def)
  have nice: "POST_coordinates nice_world nice_request None
     = ([Fetch_Nominatim (js ''Vacances Nice''), Fetch_Nominatim (js ''Nice'')], Continue (44, 7))"
    using geocode_nice n
    by (simp add: POST_coordinates_def nice_request_def truthy_def nice_candidate nice_cleaned
        try_geocode_def js_def)
  from post lutece_candidate lutece_cleaned nice show ?thesis by blast
qed

end
